theory Spec2Isabelle
  imports Complex_Main "HOL-Library.Sublist"
begin

section \<open>Python values used by entry\_points.py\<close>

text \<open>
  Exceptions that leave a function are values. \<open>SystemExit\<close> is what \<open>die\<close> raises
  through \<open>sys.exit(1)\<close>; it carries the message that \<open>die\<close> was given. \<open>ReError\<close> is
  \<open>re.error\<close>, raised by \<open>re.compile\<close> on a pattern it rejects; \<open>ParseError\<close> stands for
  whatever \<open>base64.b64decode\<close> or the XML parser raises on a malformed assertion.
\<close>

datatype error =
    SystemExit string
  | IndexError
  | TypeError
  | AttributeError
  | ValueError
  | DuplicateSectionError
  | NoSectionError
  | ParseError
  | ReError

text \<open>The outcome of a boto3 call: a response, or \<open>botocore.exceptions.ClientError\<close>
  with its rendering as a string.\<close>

datatype 'a remote = Response 'a | ClientError string

subsection \<open>Strings\<close>

text \<open>\<open>s.split(c)\<close> for a one-character separator: never empty, one more field than
  there are separators.\<close>

fun str_split :: "char \<Rightarrow> string \<Rightarrow> string list" where
  "str_split c [] = [[]]"
| "str_split c (x # xs) =
     (if x = c then [] # str_split c xs
      else (case str_split c xs of
              [] \<Rightarrow> [[x]]
            | f # fs \<Rightarrow> (x # f) # fs))"

text \<open>\<open>s.replace(old, new)\<close>: the non-overlapping occurrences of \<open>old\<close>, found from
  the left, are replaced; an empty \<open>old\<close> matches before every character and at the end.\<close>

function str_replace_ne :: "string \<Rightarrow> string \<Rightarrow> string \<Rightarrow> string" where
  "str_replace_ne old new [] = []"
| "str_replace_ne old new (x # xs) =
     (if old \<noteq> [] \<and> prefix old (x # xs)
      then new @ str_replace_ne old new (drop (length old) (x # xs))
      else x # str_replace_ne old new xs)"
  by pat_completeness auto
termination
  by (relation "measure (\<lambda>(old, new, s). length s)") (auto simp: neq_Nil_conv)

definition str_replace :: "string \<Rightarrow> string \<Rightarrow> string \<Rightarrow> string" where
  "str_replace old new s =
     (if old = [] then new @ concat (map (\<lambda>c. c # new) s)
      else str_replace_ne old new s)"

text \<open>\<open>old in s\<close>: \<open>old\<close> occurs in \<open>s\<close> as a contiguous substring.\<close>

fun contains :: "string \<Rightarrow> string \<Rightarrow> bool" where
  "contains pat [] = (pat = [])"
| "contains pat (x # xs) = (prefix pat (x # xs) \<or> contains pat xs)"

text \<open>List indexing \<open>xs[i]\<close> for a non-negative literal index.\<close>

definition index :: "'a list \<Rightarrow> nat \<Rightarrow> error + 'a" where
  "index xs i = (if i < length xs then Inr (xs ! i) else Inl IndexError)"

section \<open>Role short name\<close>

text \<open>
  \<^verbatim>\<open>def get_role_name(role_arn):
      return role_arn.split(':')[5].replace('role/', '')\<close>
\<close>

definition get_role_name :: "string \<Rightarrow> error + string" where
  "get_role_name role_arn =
     (case index (str_split CHR '':'' role_arn) 5 of
        Inl e \<Rightarrow> Inl e
      | Inr field \<Rightarrow> Inr (str_replace ''role/'' [] field))"

text \<open>The specification's wording, for comparison: the text of \<open>s\<close> after the last
  occurrence of \<open>old\<close> (\<open>None\<close> when \<open>old\<close> does not occur).\<close>

fun text_after_last :: "string \<Rightarrow> string \<Rightarrow> string option" where
  "text_after_last old [] = (if old = [] then Some [] else None)"
| "text_after_last old (x # xs) =
     (case text_after_last old xs of
        Some r \<Rightarrow> Some r
      | None \<Rightarrow> if prefix old (x # xs) then Some (drop (length old) (x # xs)) else None)"

section \<open>Tokens and account aliases\<close>

record creds =
  AccessKeyId :: string
  SecretAccessKey :: string
  SessionToken :: string

record token =
  Credentials :: creds
  AssumedRoleUserArn :: string

text \<open>
  \<open>warn\<close> writes one line to standard error, prefixed with the program name.
\<close>

definition warn_text :: "string \<Rightarrow> string" where
  "warn_text message =
     ''samlkeygen: '' @ (if CHR 0x0A \<in> set message then message else message @ [CHR 0x0A])"

text \<open>
  \<^verbatim>\<open>def get_account_alias(token):
      try:
          client = boto3.client('iam', ...)
          response = client.list_account_aliases()
          return response['AccountAliases'][0]
      except botocore.exceptions.ClientError as e:
          warn("Failed to get account alias for {}: {}".format(token['AssumedRoleUser']['Arn'],e))
          return token['AssumedRoleUser']['Arn'].split(":")[5] # The account Number\<close>

  The outcome of \<open>list_account_aliases\<close> is the argument \<open>listing\<close>: the list under
  \<open>AccountAliases\<close>, or a \<open>ClientError\<close>. The result is the returned value or the
  exception that escapes, with the lines written to standard error.
\<close>

definition get_account_alias :: "string list remote \<Rightarrow> token \<Rightarrow> (error + string) \<times> string list" where
  "get_account_alias listing tok =
     (case listing of
        Response aliases \<Rightarrow> (index aliases 0, [])
      | ClientError e \<Rightarrow>
          (index (str_split CHR '':'' (AssumedRoleUserArn tok)) 5,
           [warn_text (''Failed to get account alias for '' @ AssumedRoleUserArn tok @ '': '' @ e)]))"

text \<open>The account-number segment of an ARN \<open>arn:partition:service:region:account:resource\<close>
  is its fifth field, \<open>split(':')[4]\<close>.\<close>

definition account_number_segment :: "string \<Rightarrow> error + string" where
  "account_number_segment arn = index (str_split CHR '':'' arn) 4"

section \<open>The world outside the process\<close>

text \<open>
  Everything the program does to its surroundings is recorded, in order, as events.
\<close>

datatype event =
    Stderr string
  | Stdout string
  | HttpGet string string string
  | AssumeRoleWithSaml string string string string
  | ListAccountAliases creds
  | LockAcquire string
  | LockRelease string
  | ReadFile string
  | WriteFile string
  | Sleep nat

text \<open>
  The credentials file as \<open>RawConfigParser\<close> holds it: the \<open>DEFAULT\<close> section and the
  named sections in file order, each an ordered dictionary from option name to value.
  The text format of the file and its parser belong to the library and are not modelled;
  a file is its parsed content.
\<close>

type_synonym options = "(string \<times> string) list"

record config =
  defaults :: options
  sections :: "(string \<times> options) list"

text \<open>
  The state the program reads and writes: the function attribute
  \<open>get_account_name.map\<close>, the function attributes \<open>load_credentials.config\<close> and
  \<open>load_credentials.filename\<close>, the files on disk, the clock (seconds, as
  \<open>time.time()\<close> reads it), the number of times the clock was read, and the events so
  far.
\<close>

record world =
  alias_map :: "string \<rightharpoonup> string"
  loaded_config :: "config option"
  loaded_filename :: "string option"
  files :: "string \<rightharpoonup> config"
  now :: rat
  ticks :: nat
  events :: "event list"

text \<open>
  A decoded assertion as ElementTree holds it: an element has a tag, attributes, the
  text before its first child (\<open>None\<close> when there is none) and children.
\<close>

datatype element =
  Element (tag_of: string) (attrib_of: "(string \<times> string) list") (text_of: "string option")
          (children_of: "element list")

text \<open>
  The answers of the surroundings. A remote answer may differ between two calls with the
  same arguments, so each takes the number of events recorded so far.
  \<^item> \<open>idp_inputs\<close>: the \<open>value\<close> attributes of the \<open>input\<close> elements named
    \<open>SAMLResponse\<close> in the body answered to the GET, in document order
    (\<open>None\<close> for an element without the attribute);
  \<^item> \<open>sts_answer\<close>: the outcome of \<open>assume_role_with_saml\<close>;
  \<^item> \<open>iam_answer\<close>: the outcome of \<open>list_account_aliases\<close>;
  \<^item> \<open>decode_assertion\<close>: \<open>base64.b64decode\<close> followed by
    \<open>xml.etree.ElementTree.fromstring\<close>, with the exception either raises;
  \<^item> \<open>regex_engine\<close>: \<open>re.compile\<close> on patterns with metacharacters;
  \<^item> \<open>typed_username\<close>, \<open>typed_password\<close>: what the user types at the prompts;
  \<^item> \<open>utcnow\<close>: \<open>datetime.utcnow().strftime('%Y-%m-%dT%H:%M:%SZ')\<close>;
  \<^item> \<open>join_seconds\<close>: the time that starting and joining the workers of a pass takes;
  \<^item> \<open>lag_us\<close>: the time, in microseconds, that passes before the clock is read for
    the \<open>k\<close>-th time (what the statements since the last reading, or the sleep before it,
    took beyond what is accounted for elsewhere);
  \<^item> \<open>aws_dir\<close>: the value of \<open>AWS_DIR\<close> when the module is loaded.
\<close>

record services =
  idp_inputs :: "nat \<Rightarrow> string \<Rightarrow> string \<Rightarrow> string \<Rightarrow> string option list"
  sts_answer :: "nat \<Rightarrow> string \<Rightarrow> string \<Rightarrow> string \<Rightarrow> string \<Rightarrow> token remote"
  iam_answer :: "nat \<Rightarrow> creds \<Rightarrow> string list remote"
  decode_assertion :: "string \<Rightarrow> error + element"
  regex_engine :: "string \<Rightarrow> (string \<Rightarrow> bool) option"
  typed_username :: string
  typed_password :: string
  utcnow :: "nat \<Rightarrow> string"
  join_seconds :: "nat \<Rightarrow> rat"
  lag_us :: "nat \<Rightarrow> nat"
  aws_dir :: string

definition emit :: "event list \<Rightarrow> world \<Rightarrow> world" where
  "emit es w = w\<lparr>events := events w @ es\<rparr>"

text \<open>
  \<^verbatim>\<open>def warn(message): ... sys.stderr.write('{}: {}'.format('samlkeygen', message))
  def die(message):
      warn(message)
      sys.exit(1)\<close>
\<close>

definition warn :: "string \<Rightarrow> world \<Rightarrow> world" where
  "warn message w = emit [Stderr (warn_text message)] w"

definition die :: "string \<Rightarrow> world \<Rightarrow> (error + 'a) \<times> world" where
  "die message w = (Inl (SystemExit message), warn message w)"

section \<open>Token broker\<close>

text \<open>
  \<^verbatim>\<open>def get_sts_token(role_arn, principal_arn, assertion, region):
      client = boto3.client('sts', region_name = region)
      try:
          token = client.assume_role_with_saml(RoleArn = role_arn, PrincipalArn = principal_arn, SAMLAssertion = assertion)
          return token
      except botocore.exceptions.ClientError as e:
          warn("Failed to get creds for {}: {}".format(role_arn, e))
          return None\<close>
\<close>

definition get_sts_token ::
  "services \<Rightarrow> string \<Rightarrow> string \<Rightarrow> string \<Rightarrow> string \<Rightarrow> world \<Rightarrow> token option \<times> world" where
  "get_sts_token sv role_arn principal_arn assertion region w =
     (let w1 = emit [AssumeRoleWithSaml role_arn principal_arn assertion region] w in
      case sts_answer sv (length (events w)) role_arn principal_arn assertion region of
        Response tok \<Rightarrow> (Some tok, w1)
      | ClientError e \<Rightarrow>
          (None, warn (''Failed to get creds for '' @ role_arn @ '': '' @ e) w1))"

text \<open>
  \<^verbatim>\<open>def get_account_name(account_arn, saml_response, role_arn, region):
      if account_arn not in get_account_name.map:
          token = get_sts_token(role_arn, account_arn, saml_response, region)
          if token:
              get_account_name.map[account_arn] = get_account_alias(token)
      try:
          return get_account_name.map[account_arn]
      except KeyError:
          return account_arn\<close>

  A response of \<open>assume_role_with_saml\<close> is a non-empty dictionary, hence true.
\<close>

definition lookup_account_alias :: "services \<Rightarrow> token \<Rightarrow> world \<Rightarrow> (error + string) \<times> world" where
  "lookup_account_alias sv tok w =
     (case get_account_alias (iam_answer sv (length (events w)) (Credentials tok)) tok of
        (r, lines) \<Rightarrow> (r, emit (ListAccountAliases (Credentials tok) # map Stderr lines) w))"

definition get_account_name ::
  "services \<Rightarrow> string \<Rightarrow> string \<Rightarrow> string \<Rightarrow> string \<Rightarrow> world \<Rightarrow> (error + string) \<times> world" where
  "get_account_name sv account_arn saml_response role_arn region w =
     (let (filled, w1) =
        (if alias_map w account_arn = None
         then (case get_sts_token sv role_arn account_arn saml_response region w of
                 (None, w') \<Rightarrow> (Inr (), w')
               | (Some tok, w') \<Rightarrow>
                   (case lookup_account_alias sv tok w' of
                      (Inl e, w'') \<Rightarrow> (Inl e, w'')
                    | (Inr alias, w'') \<Rightarrow>
                        (Inr (), w''\<lparr>alias_map := (alias_map w'')(account_arn \<mapsto> alias)\<rparr>)))
         else (Inr (), w))
      in case filled of
           Inl e \<Rightarrow> (Inl e, w1)
         | Inr _ \<Rightarrow>
             (case alias_map w1 account_arn of
                Some name \<Rightarrow> (Inr name, w1)
              | None \<Rightarrow> (Inr account_arn, w1)))"

section \<open>Credential store writer\<close>

text \<open>
  \<^verbatim>\<open>AWS_DIR = os.environ.get('AWS_DIR', path.expanduser('~/.aws'))
  CREDS_FILE = path.join(AWS_DIR, 'credentials')
  LOCK_FILE = CREDS_FILE + '.lck'\<close>

  \<open>path_join\<close> is \<open>posixpath.join\<close> for two arguments.
\<close>

definition path_join :: "string \<Rightarrow> string \<Rightarrow> string" where
  "path_join a b =
     (if prefix ''/'' b then b
      else if a = [] \<or> last a = CHR ''/'' then a @ b
      else a @ ''/'' @ b)"

definition CREDS_FILE :: "services \<Rightarrow> string" where
  "CREDS_FILE sv = path_join (aws_dir sv) ''credentials''"

definition LOCK_FILE :: "services \<Rightarrow> string" where
  "LOCK_FILE sv = CREDS_FILE sv @ ''.lck''"

text \<open>
  \<open>RawConfigParser\<close> of Python 3. \<open>read\<close> skips a file it cannot open;
  \<open>has_section\<close> does not acknowledge \<open>DEFAULT\<close>; \<open>add_section\<close> refuses
  \<open>DEFAULT\<close> with \<open>ValueError\<close> and a section that exists with
  \<open>DuplicateSectionError\<close>; \<open>set\<close> stores into the \<open>DEFAULT\<close> section when
  the section name is empty or \<open>DEFAULT\<close>, and raises \<open>NoSectionError\<close> for a section
  that does not exist. \<open>optionxform\<close> lower-cases option names; the names set below are
  lower-case already. Assigning to a key of an ordered dictionary keeps the key's
  place, and a new key goes to the end.
\<close>

definition empty_config :: config where
  "empty_config = \<lparr>defaults = [], sections = []\<rparr>"

definition config_read :: "(string \<rightharpoonup> config) \<Rightarrow> string \<Rightarrow> config" where
  "config_read fs filename = (case fs filename of None \<Rightarrow> empty_config | Some c \<Rightarrow> c)"

definition has_section :: "config \<Rightarrow> string \<Rightarrow> bool" where
  "has_section c name = (name \<in> set (map fst (sections c)))"

definition add_section :: "config \<Rightarrow> string \<Rightarrow> error + config" where
  "add_section c name =
     (if name = ''DEFAULT'' then Inl ValueError
      else if has_section c name then Inl DuplicateSectionError
      else Inr (c\<lparr>sections := sections c @ [(name, [])]\<rparr>))"

fun dict_set :: "('k \<times> 'v) list \<Rightarrow> 'k \<Rightarrow> 'v \<Rightarrow> ('k \<times> 'v) list" where
  "dict_set [] k v = [(k, v)]"
| "dict_set ((k', v') # kvs) k v =
     (if k' = k then (k, v) # kvs else (k', v') # dict_set kvs k v)"

definition config_set :: "config \<Rightarrow> string \<Rightarrow> string \<Rightarrow> string \<Rightarrow> error + config" where
  "config_set c name option val =
     (if name = [] \<or> name = ''DEFAULT'' then Inr (c\<lparr>defaults := dict_set (defaults c) option val\<rparr>)
      else (case map_of (sections c) name of
              None \<Rightarrow> Inl NoSectionError
            | Some opts \<Rightarrow> Inr (c\<lparr>sections := dict_set (sections c) name (dict_set opts option val)\<rparr>)))"

text \<open>
  \<^verbatim>\<open>def load_credentials(filename, force_refresh=False):
      if (force_refresh or not load_credentials.config or filename != load_credentials.filename):
          load_credentials.config = configparser.RawConfigParser()
          load_credentials.config.read(filename)
      return load_credentials.config
  load_credentials.config = None
  load_credentials.filename = None\<close>

  A parser object is true (its length counts the \<open>DEFAULT\<close> section). Nothing assigns
  \<open>load_credentials.filename\<close>.
\<close>

definition load_credentials :: "string \<Rightarrow> bool \<Rightarrow> world \<Rightarrow> config \<times> world" where
  "load_credentials filename force_refresh w =
     (case loaded_config w of
        Some c \<Rightarrow>
          if force_refresh \<or> Some filename \<noteq> loaded_filename w
          then (let c' = config_read (files w) filename
                in (c', emit [ReadFile filename] (w\<lparr>loaded_config := Some c'\<rparr>)))
          else (c, w)
      | None \<Rightarrow>
          (let c' = config_read (files w) filename
           in (c', emit [ReadFile filename] (w\<lparr>loaded_config := Some c'\<rparr>))))"

text \<open>
  \<^verbatim>\<open>@interprocess_locked(LOCK_FILE)
  def update_creds_file(filename, profile, token):
      credentials = load_credentials(filename, True)
      if not credentials.has_section(profile):
          credentials.add_section(profile)
      credentials.set(profile, 'aws_access_key_id', token['Credentials']['AccessKeyId'])
      credentials.set(profile, 'aws_secret_access_key', token['Credentials']['SecretAccessKey'])
      credentials.set(profile, 'aws_session_token', token['Credentials']['SessionToken'])
      credentials.set(profile, 'aws_security_token', token['Credentials']['SessionToken'])
      credentials.set(profile, 'last_updated', datetime.utcnow().strftime('%Y-%m-%dT%H:%M:%SZ'))
      with open(filename, 'w+') as credsfile:
          credentials.write(credsfile)\<close>

  The parser object is mutated in place, so \<open>load_credentials.config\<close> sees the
  changes. The decorator takes the lock before the body and releases it when the body
  returns or raises.
\<close>

fun set_all :: "config \<Rightarrow> string \<Rightarrow> (string \<times> string) list \<Rightarrow> error + config" where
  "set_all c name [] = Inr c"
| "set_all c name ((k, v) # kvs) =
     (case config_set c name k v of
        Inl e \<Rightarrow> Inl e
      | Inr c' \<Rightarrow> set_all c' name kvs)"

definition token_fields :: "token \<Rightarrow> string \<Rightarrow> (string \<times> string) list" where
  "token_fields tok stamp =
     [(''aws_access_key_id'', AccessKeyId (Credentials tok)),
      (''aws_secret_access_key'', SecretAccessKey (Credentials tok)),
      (''aws_session_token'', SessionToken (Credentials tok)),
      (''aws_security_token'', SessionToken (Credentials tok)),
      (''last_updated'', stamp)]"

definition update_creds_body ::
  "services \<Rightarrow> string \<Rightarrow> string \<Rightarrow> token \<Rightarrow> world \<Rightarrow> (error + unit) \<times> world" where
  "update_creds_body sv filename profile tok w =
     (case load_credentials filename True w of
        (c, w1) \<Rightarrow>
          (case (if has_section c profile then Inr c else add_section c profile) of
             Inl e \<Rightarrow> (Inl e, w1)
           | Inr c1 \<Rightarrow>
               (case set_all c1 profile (token_fields tok (utcnow sv (length (events w1)))) of
                  Inl e \<Rightarrow> (Inl e, w1\<lparr>loaded_config := Some c1\<rparr>)
                | Inr c2 \<Rightarrow>
                    (Inr (), emit [WriteFile filename]
                       (w1\<lparr>loaded_config := Some c2, files := (files w1)(filename \<mapsto> c2)\<rparr>)))))"

definition update_creds_file ::
  "services \<Rightarrow> string \<Rightarrow> string \<Rightarrow> token \<Rightarrow> world \<Rightarrow> (error + unit) \<times> world" where
  "update_creds_file sv filename profile tok w =
     (case update_creds_body sv filename profile tok (emit [LockAcquire (LOCK_FILE sv)] w) of
        (r, w') \<Rightarrow> (r, emit [LockRelease (LOCK_FILE sv)] w'))"

text \<open>The options of a section after a list of assignments, one \<open>set\<close> after the other.\<close>

fun set_options :: "options \<Rightarrow> (string \<times> string) list \<Rightarrow> options" where
  "set_options opts [] = opts"
| "set_options opts ((k, v) # kvs) = set_options (dict_set opts k v) kvs"

section \<open>Assertion negotiator\<close>

text \<open>
  \<^verbatim>\<open>def ntlm_authenticate(url, domain, username, password, batch=False, sslverification=True):
      if not url: die(...)
      if not domain: die(...)
      if not username:
          if not batch: username = input('Username:')
          if not username: die(...)
      domain_username = '{}\\{}'.format(domain, username)
      if not password:
          if not batch: password = getpass.getpass(...)
          if not password: die(...)
      ...
      response = session.get(url, verify=sslverification, headers=headers)
      soup = bs4.BeautifulSoup(response.text, 'html.parser')
      try:
        saml_response = [input_tag.get('value') for input_tag in soup.find_all('input')
                         if input_tag.get('name') == 'SAMLResponse'][-1]
      except IndexError:
        saml_response = None
      if not saml_response: die(...)
      else: return (url, domain, username, password), saml_response\<close>
\<close>

definition truthy :: "string option \<Rightarrow> bool" where
  "truthy s = (case s of None \<Rightarrow> False | Some t \<Rightarrow> t \<noteq> [])"

type_synonym saml_creds = "string \<times> string \<times> string \<times> string option"

definition ntlm_authenticate ::
  "services \<Rightarrow> string \<Rightarrow> string \<Rightarrow> string \<Rightarrow> string option \<Rightarrow> bool \<Rightarrow> world
     \<Rightarrow> (error + saml_creds \<times> string) \<times> world" where
  "ntlm_authenticate sv url domain username password batch w =
     (if url = [] then die ''Pass ADFS URL via --url or set ADFS_URL in environment.'' w
      else if domain = []
      then die ''Pass ADFS authentication domain via --domain or set ADFS_DOMAIN in environment.'' w
      else
        (let username1 = (if username = [] \<and> \<not> batch then typed_username sv else username) in
         if username1 = []
         then die ''Unable to determine ADFS username. Specify via --username option or run interactively.'' w
         else
           (let domain_username = domain @ [CHR 0x5C] @ username1;
                password1 = (if \<not> truthy password \<and> \<not> batch then Some (typed_password sv) else password)
            in if \<not> truthy password1
               then die (''No password given for '' @ username1
                           @ ''. Respond to prompt or specify via --password option.'') w
               else
                 (let w1 = emit [HttpGet url domain_username (the password1)] w;
                      inputs = idp_inputs sv (length (events w)) url domain_username (the password1);
                      saml_response = (if inputs = [] then None else last inputs)
                  in if \<not> truthy saml_response
                     then die ''Error getting SAML Response. If not on LAN, please VPN in.'' w1
                     else (Inr ((url, domain, username1, password1), the saml_response), w1)))))"

section \<open>One worker\<close>

text \<open>
  \<^verbatim>\<open>def authenticate_account_role(filename, profile_format, principal_arn, role_arn, saml_creds, region):
      if role_arn is None:
          die('Unable to get credentials for null role ARN')
      saml_creds, saml_response = ntlm_authenticate(*saml_creds, batch=True)
      token = get_sts_token(role_arn, principal_arn, saml_response, region)
      if not token:
          die('Unable to get token for ({}, {})'.format(principal_arn, role_arn))
      account_name = get_account_name(principal_arn, saml_response, role_arn, region)
      role_name = get_role_name(role_arn)
      profile = profile_format.replace('%a', account_name).replace('%r', role_name)
      print('Writing credentials for profile {}'.format(profile))
      update_creds_file(filename, profile, token)\<close>

  The role identifiers reaching this function are strings taken from the bindings, so
  the test for \<open>None\<close> never fires.
\<close>

definition profile_name :: "string \<Rightarrow> string \<Rightarrow> string \<Rightarrow> string" where
  "profile_name profile_format account_name role_name =
     str_replace ''%r'' role_name (str_replace ''%a'' account_name profile_format)"

definition authenticate_account_role ::
  "services \<Rightarrow> string \<Rightarrow> string \<Rightarrow> string \<Rightarrow> string \<Rightarrow> saml_creds \<Rightarrow> string \<Rightarrow> world
     \<Rightarrow> (error + unit) \<times> world" where
  "authenticate_account_role sv filename profile_format principal_arn role_arn saml_creds region w =
     (case saml_creds of (url, domain, username, password) \<Rightarrow>
      case ntlm_authenticate sv url domain username password True w of
        (Inl e, w1) \<Rightarrow> (Inl e, w1)
      | (Inr (_, saml_response), w1) \<Rightarrow>
          (case get_sts_token sv role_arn principal_arn saml_response region w1 of
             (None, w2) \<Rightarrow>
               die (''Unable to get token for ('' @ principal_arn @ '', '' @ role_arn @ '')'') w2
           | (Some tok, w2) \<Rightarrow>
               (case get_account_name sv principal_arn saml_response role_arn region w2 of
                  (Inl e, w3) \<Rightarrow> (Inl e, w3)
                | (Inr account_name, w3) \<Rightarrow>
                    (case get_role_name role_arn of
                       Inl e \<Rightarrow> (Inl e, w3)
                     | Inr role_name \<Rightarrow>
                         (let profile = profile_name profile_format account_name role_name;
                              w4 = emit [Stdout (''Writing credentials for profile '' @ profile
                                                   @ [CHR 0x0A])] w3
                          in update_creds_file sv filename profile tok w4)))))"

section \<open>Binding extractor\<close>

text \<open>
  \<open>root.iter(tag)\<close> of ElementTree: the element itself and all its descendants, in
  document order, that carry the tag.
\<close>

fun descendants :: "element \<Rightarrow> element list" where
  "descendants (Element t a x cs) = Element t a x cs # concat (map descendants cs)"

definition iter :: "string \<Rightarrow> element \<Rightarrow> element list" where
  "iter t e = filter (\<lambda>x. tag_of x = t) (descendants e)"

definition AWS_ATTRIBUTE_ROLE :: string where
  "AWS_ATTRIBUTE_ROLE = ''https://aws.amazon.com/SAML/Attributes/Role''"

definition ATTRIBUTE_VALUE_URN :: string where
  "ATTRIBUTE_VALUE_URN = ''{urn:oasis:names:tc:SAML:2.0:assertion}AttributeValue''"

definition ATTRIBUTE_URN :: string where
  "ATTRIBUTE_URN = ''{urn:oasis:names:tc:SAML:2.0:assertion}Attribute''"

text \<open>
  \<^verbatim>\<open>def extract_roles(saml_response):
      role_tuple = namedtuple('RoleTuple', ['principal_arn', 'role_arn'])
      root = xml.etree.ElementTree.fromstring(base64.b64decode(saml_response))
      return [item for sublist in [
        [role_tuple(*value.text.split(',')) for value in attr.iter(ATTRIBUTE_VALUE_URN)]
          for attr in root.iter('{urn:oasis:names:tc:SAML:2.0:assertion}Attribute')
            if attr.get('Name') ==AWS_ATTRIBUTE_ROLE] for item in sublist]\<close>

  \<open>role_tuple\<close> takes exactly two positional arguments and raises \<open>TypeError\<close>
  otherwise; \<open>value.text\<close> is \<open>None\<close> for an element without text, and \<open>None\<close> has no
  \<open>split\<close>. The first value that raises ends the comprehension.
\<close>

type_synonym binding = "string \<times> string"

definition role_tuple :: "string list \<Rightarrow> error + binding" where
  "role_tuple args = (case args of [principal_arn, role_arn] \<Rightarrow> Inr (principal_arn, role_arn)
                                 | _ \<Rightarrow> Inl TypeError)"

definition value_binding :: "element \<Rightarrow> error + binding" where
  "value_binding v = (case text_of v of
                        None \<Rightarrow> Inl AttributeError
                      | Some t \<Rightarrow> role_tuple (str_split CHR '','' t))"

fun collect :: "('a \<Rightarrow> error + 'b) \<Rightarrow> 'a list \<Rightarrow> error + 'b list" where
  "collect f [] = Inr []"
| "collect f (x # xs) =
     (case f x of
        Inl e \<Rightarrow> Inl e
      | Inr y \<Rightarrow> (case collect f xs of Inl e \<Rightarrow> Inl e | Inr ys \<Rightarrow> Inr (y # ys)))"

definition role_values :: "element \<Rightarrow> element list" where
  "role_values doc =
     concat (map (iter ATTRIBUTE_VALUE_URN)
               (filter (\<lambda>attr. map_of (attrib_of attr) ''Name'' = Some AWS_ATTRIBUTE_ROLE)
                  (iter ATTRIBUTE_URN doc)))"

definition extract_roles_xml :: "element \<Rightarrow> error + binding list" where
  "extract_roles_xml doc = collect value_binding (role_values doc)"

definition extract_roles :: "services \<Rightarrow> string \<Rightarrow> error + binding list" where
  "extract_roles sv saml_response =
     (case decode_assertion sv saml_response of
        Inl e \<Rightarrow> Inl e
      | Inr doc \<Rightarrow> extract_roles_xml doc)"

text \<open>The specification's wording, for comparison: a value split on its first comma.\<close>

definition split_first_comma :: "string \<Rightarrow> binding" where
  "split_first_comma t =
     (takeWhile (\<lambda>c. c \<noteq> CHR '','') t, drop 1 (dropWhile (\<lambda>c. c \<noteq> CHR '','') t))"

section \<open>Account and role resolver\<close>

text \<open>
  \<open>int(s)\<close> of Python 3 on a string of ASCII characters: surrounding whitespace is
  dropped, one sign is allowed, and the digits may be grouped by single underscores.
\<close>

definition is_space :: "char \<Rightarrow> bool" where
  "is_space c \<longleftrightarrow> c \<in> set [CHR 0x09, CHR 0x0A, CHR 0x0B, CHR 0x0C, CHR 0x0D,
                          CHR 0x1C, CHR 0x1D, CHR 0x1E, CHR 0x1F, CHR 0x20]"

definition digit_value :: "char \<Rightarrow> nat option" where
  "digit_value c =
     map_of [(CHR ''0'', 0), (CHR ''1'', 1), (CHR ''2'', 2), (CHR ''3'', 3), (CHR ''4'', 4),
             (CHR ''5'', 5), (CHR ''6'', 6), (CHR ''7'', 7), (CHR ''8'', 8), (CHR ''9'', 9)] c"

fun parse_digits :: "bool \<Rightarrow> nat \<Rightarrow> string \<Rightarrow> nat option" where
  "parse_digits after_digit acc [] = (if after_digit then Some acc else None)"
| "parse_digits after_digit acc (c # cs) =
     (case digit_value c of
        Some d \<Rightarrow> parse_digits True (10 * acc + d) cs
      | None \<Rightarrow> if c = CHR ''_'' \<and> after_digit then parse_digits False acc cs else None)"

definition strip :: "string \<Rightarrow> string" where
  "strip s = rev (dropWhile is_space (rev (dropWhile is_space s)))"

definition parse_int :: "string \<Rightarrow> int option" where
  "parse_int s =
     (case strip s of
        [] \<Rightarrow> None
      | c # cs \<Rightarrow>
          if c = CHR ''-'' then map_option (\<lambda>n. - int n) (parse_digits False 0 cs)
          else if c = CHR ''+'' then map_option int (parse_digits False 0 cs)
          else map_option int (parse_digits False 0 (c # cs)))"

text \<open>\<open>'{}'.format(n)\<close> for an integer.\<close>

function str_nat :: "nat \<Rightarrow> string" where
  "str_nat n = (if n < 10 then [''0123456789'' ! n]
                else str_nat (n div 10) @ [''0123456789'' ! (n mod 10)])"
  by pat_completeness auto
termination
  by (relation "measure id") auto

declare str_nat.simps [simp del]

definition str_int :: "int \<Rightarrow> string" where
  "str_int i = (if i < 0 then CHR ''-'' # str_nat (nat (- i)) else str_nat (nat i))"

text \<open>
  \<open>re.compile(pattern).search\<close>. A pattern without metacharacters matches where it
  occurs as a substring; any other pattern is left to the regular-expression engine of
  the surroundings, which may reject it.
\<close>

definition metachars :: string where
  "metachars = [CHR ''.'', CHR ''^'', CHR ''$'', CHR ''*'', CHR ''+'', CHR ''?'', CHR ''{'',
                CHR ''}'', CHR ''['', CHR '']'', CHR 0x5C, CHR ''|'', CHR ''('', CHR '')'']"

definition literal_pattern :: "string \<Rightarrow> bool" where
  "literal_pattern pat = list_all (\<lambda>c. c \<notin> set metachars) pat"

definition re_compile :: "services \<Rightarrow> string \<Rightarrow> (string \<Rightarrow> bool) option" where
  "re_compile sv pat = (if literal_pattern pat then Some (contains pat) else regex_engine sv pat)"

text \<open>
  The arguments of \<open>authenticate\<close>. \<open>verbose\<close> only switches diagnostic output on,
  which is not modelled.
\<close>

record arguments =
  arg_url :: string
  arg_region :: string
  arg_batch :: bool
  arg_all_accounts :: bool
  arg_account :: "string option"
  arg_profile :: string
  arg_domain :: string
  arg_role :: "string option"
  arg_username :: string
  arg_password :: "string option"
  arg_filename :: string
  arg_auto_update :: bool

text \<open>
  \<^verbatim>\<open>    account_arn = None
      if account:
          try:
              account_id = int(account)
          except ValueError:
              account_id = None
          if account_id:
              account = 'arn:aws:iam::{}'.format(account_id)
          regex = re.compile(account)
          for principal_arn, role_arn in roles:
              if regex.search(principal_arn):
                  account_arn = principal_arn
                  break
          # no easy find on account id, have to actually fetch account aliases:
          if not account_arn:
              for principal_arn, role_arn in roles:
                  account_name = get_account_name(principal_arn, saml_response, role_arn, region)
                  if regex.search(account_name):
                      account_arn = principal_arn
                      break\<close>
\<close>

definition account_pattern :: "string \<Rightarrow> string" where
  "account_pattern account =
     (case parse_int account of
        None \<Rightarrow> account
      | Some account_id \<Rightarrow>
          if account_id \<noteq> 0 then ''arn:aws:iam::'' @ str_int account_id else account)"

fun find_principal :: "(string \<Rightarrow> bool) \<Rightarrow> binding list \<Rightarrow> string option" where
  "find_principal search [] = None"
| "find_principal search ((principal_arn, role_arn) # rest) =
     (if search principal_arn then Some principal_arn else find_principal search rest)"

fun find_by_alias ::
  "services \<Rightarrow> (string \<Rightarrow> bool) \<Rightarrow> string \<Rightarrow> string \<Rightarrow> binding list \<Rightarrow> world
     \<Rightarrow> (error + string option) \<times> world" where
  "find_by_alias sv search saml_response region [] w = (Inr None, w)"
| "find_by_alias sv search saml_response region ((principal_arn, role_arn) # rest) w =
     (case get_account_name sv principal_arn saml_response role_arn region w of
        (Inl e, w') \<Rightarrow> (Inl e, w')
      | (Inr account_name, w') \<Rightarrow>
          if search account_name then (Inr (Some principal_arn), w')
          else find_by_alias sv search saml_response region rest w')"

text \<open>The result is the value of \<open>account\<close> and of \<open>account_arn\<close> after the block.\<close>

definition select_account ::
  "services \<Rightarrow> string option \<Rightarrow> string \<Rightarrow> string \<Rightarrow> binding list \<Rightarrow> world
     \<Rightarrow> (error + string option \<times> string option) \<times> world" where
  "select_account sv account saml_response region roles w =
     (if \<not> truthy account then (Inr (account, None), w)
      else
        (let pat = account_pattern (the account) in
         case re_compile sv pat of
           None \<Rightarrow> (Inl ReError, w)
         | Some search \<Rightarrow>
             (let account_arn = find_principal search roles in
              if truthy account_arn then (Inr (Some pat, account_arn), w)
              else (case find_by_alias sv search saml_response region roles w of
                      (Inl e, w') \<Rightarrow> (Inl e, w')
                    | (Inr account_arn', w') \<Rightarrow> (Inr (Some pat, account_arn'), w')))))"

text \<open>
  \<^verbatim>\<open>    if role:
          if role.startswith('arn:'):
              roles = [r for r in roles if r[1] == role]
          else:
              regex = re.compile(role)
              roles = [r for r in roles if regex.search(r[1])]
          if not roles:
              msg = 'Role {} not found'.format(role)
              if account_arn:
                  msg += ' in account {}'.format(account_arn, saml_response, role_arn, region)
              die(msg)\<close>
\<close>

definition select_role ::
  "services \<Rightarrow> string option \<Rightarrow> string option \<Rightarrow> binding list \<Rightarrow> world
     \<Rightarrow> (error + binding list) \<times> world" where
  "select_role sv role account_arn roles w =
     (if \<not> truthy role then (Inr roles, w)
      else
        (case (if prefix ''arn:'' (the role)
               then Inr (filter (\<lambda>r. snd r = the role) roles)
               else (case re_compile sv (the role) of
                       None \<Rightarrow> Inl ReError
                     | Some search \<Rightarrow> Inr (filter (\<lambda>r. search (snd r)) roles))) of
           Inl e \<Rightarrow> (Inl e, w)
         | Inr roles' \<Rightarrow>
             if roles' = []
             then die (''Role '' @ the role @ '' not found''
                         @ (if truthy account_arn then '' in account '' @ the account_arn else [])) w
             else (Inr roles', w)))"

text \<open>
  The part of \<open>authenticate\<close> before the loop: the two checks of the flags, the
  negotiation, the extraction and the two selections. The result is the negotiation
  parameters and the bindings to fetch tokens for, \<open>set(roles)\<close>: the bindings without
  repetition, in the order that \<open>remdups\<close> gives them (Python leaves the order of a
  set open).
\<close>

definition resolve ::
  "services \<Rightarrow> arguments \<Rightarrow> world \<Rightarrow> (error + saml_creds \<times> binding list) \<times> world" where
  "resolve sv args w =
     (if \<not> (arg_all_accounts args \<or> truthy (arg_account args))
      then die ''Need --account or --all-accounts'' w
      else if arg_all_accounts args \<and> (truthy (arg_account args) \<or> truthy (arg_role args))
      then die ''Specify --account/--role or --all-accounts, not both.'' w
      else
        (case ntlm_authenticate sv (arg_url args) (arg_domain args) (arg_username args)
                (arg_password args) (arg_batch args) w of
           (Inl e, w1) \<Rightarrow> (Inl e, w1)
         | (Inr (saml_creds, saml_response), w1) \<Rightarrow>
             (case extract_roles sv saml_response of
                Inl e \<Rightarrow> (Inl e, w1)
              | Inr roles \<Rightarrow>
                  (case select_account sv (arg_account args) saml_response (arg_region args) roles w1 of
                     (Inl e, w2) \<Rightarrow> (Inl e, w2)
                   | (Inr (account, account_arn), w2) \<Rightarrow>
                       (let roles1 = (if truthy account_arn
                                      then filter (\<lambda>r. fst r = the account_arn) roles
                                      else roles)
                        in if truthy account_arn \<and> roles1 = []
                           then die (''Account '' @ the account @ '' not found.'') w2
                           else (case select_role sv (arg_role args) account_arn roles1 w2 of
                                   (Inl e, w3) \<Rightarrow> (Inl e, w3)
                                 | (Inr roles2, w3) \<Rightarrow> (Inr (saml_creds, remdups roles2), w3)))))))"

section \<open>Refresh scheduler\<close>

text \<open>
  \<^verbatim>\<open>    roles = set(roles)
      first = True
      while auto_update or first:
          first = False
          processes = []
          started = time.time()
          for account_arn, role_arn in roles:
              p = Process(target=authenticate_account_role, args=(filename, profile, account_arn, role_arn, saml_creds, region))
              p.start()
              processes.append(p)
          for p in processes:
              p.join()
          if auto_update:
              trace('Token retrieval took {} seconds'.format(time.time() - started))
              next_update = time.time() + 59 * 60
              while time.time() < next_update:
                  counter = int((next_update - time.time()) // 60)
                  print('{} minutes till credential refresh\r'.format(counter), end='')
                  sys.stdout.flush()
                  time.sleep(60)\<close>

  A worker is a process of its own: it starts from a copy of the parent's memory, what
  it assigns to the function attributes stays in the worker, and its exit status is
  not looked at. Its requests, its output and its writes to the store are the world's.
  The workers of a pass are taken one after the other, in the order of the bindings.
  Every \<open>time.time()\<close> is a reading of its own: the clock moves by \<open>lag_us\<close>
  microseconds before each reading, by \<open>join_seconds\<close> while the workers of a pass
  run, and by 60 seconds in each \<open>time.sleep(60)\<close>. The argument of \<open>trace\<close> is
  evaluated whether or not tracing is on, so the clock is read there too.
\<close>

text \<open>\<open>time.time()\<close>: the world after the reading; the value read is its \<open>now\<close>.\<close>

definition time_time :: "services \<Rightarrow> world \<Rightarrow> world" where
  "time_time sv w =
     w\<lparr>now := now w + of_nat (lag_us sv (ticks w)) / 1000000, ticks := Suc (ticks w)\<rparr>"

definition run_worker :: "services \<Rightarrow> arguments \<Rightarrow> saml_creds \<Rightarrow> binding \<Rightarrow> world \<Rightarrow> world" where
  "run_worker sv args saml_creds b w =
     (case authenticate_account_role sv (arg_filename args) (arg_profile args) (fst b) (snd b)
             saml_creds (arg_region args) w of
        (r, w') \<Rightarrow> w'\<lparr>alias_map := alias_map w, loaded_config := loaded_config w,
                       loaded_filename := loaded_filename w\<rparr>)"

definition refresh_report :: "rat \<Rightarrow> rat \<Rightarrow> string" where
  "refresh_report next_update t =
     str_int \<lfloor>(next_update - t) / 60\<rfloor> @ '' minutes till credential refresh'' @ [CHR 0x0D]"

function sleep_until :: "services \<Rightarrow> rat \<Rightarrow> world \<Rightarrow> world" where
  "sleep_until sv next_update w =
     (if now (time_time sv w) < next_update
      then sleep_until sv next_update
             (emit [Stdout (refresh_report next_update (now (time_time sv (time_time sv w)))),
                    Sleep 60]
                ((time_time sv (time_time sv w))
                   \<lparr>now := now (time_time sv (time_time sv w)) + 60\<rparr>))
      else time_time sv w)"
  by pat_completeness auto
termination
proof (relation "measure (\<lambda>(sv, next_update, w). nat \<lceil>next_update - now w\<rceil>)")
  show "wf (measure (\<lambda>(sv, next_update, w). nat \<lceil>next_update - now w\<rceil>))"
    by simp
next
  fix sv :: services and next_update :: rat and w :: world
  assume a: "now (time_time sv w) < next_update"
  have m: "now w \<le> now (time_time sv w)"
    and n: "now (time_time sv w) \<le> now (time_time sv (time_time sv w))"
    by (simp_all add: time_time_def)
  from a m n have "\<lceil>next_update - (now (time_time sv (time_time sv w)) + 60)\<rceil>
                     < \<lceil>next_update - now w\<rceil>"
    and "0 < \<lceil>next_update - now w\<rceil>"
    by linarith+
  then show "((sv, next_update,
               emit [Stdout (refresh_report next_update (now (time_time sv (time_time sv w)))),
                     Sleep 60]
                 ((time_time sv (time_time sv w))
                    \<lparr>now := now (time_time sv (time_time sv w)) + 60\<rparr>)),
              sv, next_update, w)
             \<in> measure (\<lambda>(sv, next_update, w). nat \<lceil>next_update - now w\<rceil>)"
    by (simp add: emit_def)
qed

declare sleep_until.simps [simp del]

text \<open>The workers of one pass, started and joined.\<close>

definition fan_out :: "services \<Rightarrow> arguments \<Rightarrow> saml_creds \<Rightarrow> binding list \<Rightarrow> world \<Rightarrow> world" where
  "fan_out sv args saml_creds roles w =
     (let w1 = fold (run_worker sv args saml_creds) roles w
      in w1\<lparr>now := now w1 + join_seconds sv (length (events w))\<rparr>)"

text \<open>One turn of the \<open>while\<close> loop. The clock is read for \<open>started\<close> before the
  workers run and, with \<open>auto_update\<close>, for the message of \<open>trace\<close> and for
  \<open>next_update\<close> after they were joined.\<close>

definition one_pass :: "services \<Rightarrow> arguments \<Rightarrow> saml_creds \<Rightarrow> binding list \<Rightarrow> world \<Rightarrow> world" where
  "one_pass sv args saml_creds roles w =
     (let started = time_time sv w;
          w1 = fan_out sv args saml_creds roles started
      in if arg_auto_update args
         then (let traced = time_time sv w1;
                   w2 = time_time sv traced;
                   next_update = now w2 + 59 * 60
               in sleep_until sv next_update w2)
         else w1)"

text \<open>
  With \<open>auto_update\<close> the loop never ends. \<open>scheduler n\<close> runs it for at most \<open>n\<close>
  turns; \<open>None\<close> says that the loop is still running after them.
\<close>

fun scheduler ::
  "nat \<Rightarrow> services \<Rightarrow> arguments \<Rightarrow> saml_creds \<Rightarrow> binding list \<Rightarrow> world \<Rightarrow> unit option \<times> world" where
  "scheduler 0 sv args saml_creds roles w = (None, w)"
| "scheduler (Suc n) sv args saml_creds roles w =
     (let w' = one_pass sv args saml_creds roles w
      in if arg_auto_update args then scheduler n sv args saml_creds roles w' else (Some (), w'))"

definition authenticate ::
  "nat \<Rightarrow> services \<Rightarrow> arguments \<Rightarrow> world \<Rightarrow> (error + unit) option \<times> world" where
  "authenticate n sv args w =
     (case resolve sv args w of
        (Inl e, w1) \<Rightarrow> (Some (Inl e), w1)
      | (Inr (saml_creds, roles), w1) \<Rightarrow>
          (case scheduler n sv args saml_creds roles w1 of
             (None, w2) \<Rightarrow> (None, w2)
           | (Some u, w2) \<Rightarrow> (Some (Inr u), w2)))"

section \<open>Example surroundings\<close>

text \<open>
  A world with nothing in it, a token, and surroundings in which the identity provider
  answers with one assertion that decodes to a given document; the answers of the two
  remote services are left open. They serve to run the definitions on concrete inputs.
\<close>

definition empty_world :: world where
  "empty_world = \<lparr>alias_map = Map.empty, loaded_config = None, loaded_filename = None,
                   files = Map.empty, now = 0, ticks = 0, events = []\<rparr>"

definition example_token :: token where
  "example_token =
     \<lparr>Credentials = \<lparr>AccessKeyId = ''AK'', SecretAccessKey = ''SK'', SessionToken = ''ST''\<rparr>,
      AssumedRoleUserArn = ''arn:aws:sts::123456789012:assumed-role/Admin/user''\<rparr>"

definition example_services ::
  "(nat \<Rightarrow> string \<Rightarrow> string \<Rightarrow> string \<Rightarrow> string \<Rightarrow> token remote) \<Rightarrow> (nat \<Rightarrow> creds \<Rightarrow> string list remote)
     \<Rightarrow> element \<Rightarrow> services" where
  "example_services sts iam doc =
     \<lparr>idp_inputs = (\<lambda>n url user pw. [Some ''assertion'']),
      sts_answer = sts,
      iam_answer = iam,
      decode_assertion = (\<lambda>s. Inr doc),
      regex_engine = (\<lambda>pat. None),
      typed_username = [],
      typed_password = [],
      utcnow = (\<lambda>n. ''2020-01-01T00:00:00Z''),
      join_seconds = (\<lambda>n. 0),
      lag_us = (\<lambda>k. 0),
      aws_dir = ''/home/user/.aws''\<rparr>"

text \<open>A store with three profiles.\<close>

definition example_store :: config where
  "example_store =
     \<lparr>defaults = [],
      sections = [(''p1'', [(''aws_access_key_id'', ''A1''), (''region'', ''eu-west-1'')]),
                  (''p2'', [(''aws_access_key_id'', ''A2'')]),
                  (''p3'', [(''region'', ''us-east-1'')])]\<rparr>"

text \<open>A token exchange that succeeds only as the \<open>k\<close>-th event, and one that always
  succeeds; an alias listing that always answers with the one alias \<open>prod\<close>.\<close>

definition sts_only_at :: "nat \<Rightarrow> nat \<Rightarrow> string \<Rightarrow> string \<Rightarrow> string \<Rightarrow> string \<Rightarrow> token remote" where
  "sts_only_at k = (\<lambda>n role_arn principal_arn assertion region.
     if n = k then Response example_token else ClientError ''AccessDenied'')"

definition sts_always :: "nat \<Rightarrow> string \<Rightarrow> string \<Rightarrow> string \<Rightarrow> string \<Rightarrow> token remote" where
  "sts_always = (\<lambda>n role_arn principal_arn assertion region. Response example_token)"

definition iam_prod :: "nat \<Rightarrow> creds \<Rightarrow> string list remote" where
  "iam_prod = (\<lambda>n c. Response [''prod''])"

definition example_arguments :: arguments where
  "example_arguments =
     \<lparr>arg_url = ''https://adfs.example.com/'', arg_region = ''us-east-1'', arg_batch = True,
      arg_all_accounts = False, arg_account = None, arg_profile = ''%a:%r'',
      arg_domain = ''CORP'', arg_role = None, arg_username = ''alice'',
      arg_password = Some ''secret'', arg_filename = ''/home/user/.aws/credentials'',
      arg_auto_update = False\<rparr>"

text \<open>An assertion document with the given texts as values of the role attribute.\<close>

definition role_attribute :: "string list \<Rightarrow> element" where
  "role_attribute vals =
     Element ATTRIBUTE_URN [(''Name'', AWS_ATTRIBUTE_ROLE)] None
       (map (\<lambda>v. Element ATTRIBUTE_VALUE_URN [] (Some v) []) vals)"

definition example_assertion :: "string list \<Rightarrow> element" where
  "example_assertion vals =
     Element ''{urn:oasis:names:tc:SAML:2.0:protocol}Response'' [] None
       [Element ''{urn:oasis:names:tc:SAML:2.0:assertion}Assertion'' [] None
          [Element ''{urn:oasis:names:tc:SAML:2.0:assertion}AttributeStatement'' [] None
             [Element ATTRIBUTE_URN [(''Name'', ''https://aws.amazon.com/SAML/Attributes/RoleSessionName'')]
                None [Element ATTRIBUTE_VALUE_URN [] (Some ''alice'') []],
              role_attribute vals]]]"

section \<open>Properties\<close>

subsection \<open>State bookkeeping\<close>

lemma emit_simps [simp]:
  "alias_map (emit es w) = alias_map w"
  "loaded_config (emit es w) = loaded_config w"
  "loaded_filename (emit es w) = loaded_filename w"
  "files (emit es w) = files w"
  "now (emit es w) = now w"
  "events (emit es w) = events w @ es"
  by (simp_all add: emit_def)

lemma warn_simps [simp]:
  "alias_map (warn m w) = alias_map w"
  "loaded_config (warn m w) = loaded_config w"
  "loaded_filename (warn m w) = loaded_filename w"
  "files (warn m w) = files w"
  "now (warn m w) = now w"
  "events (warn m w) = events w @ [Stderr (warn_text m)]"
  by (simp_all add: warn_def)

subsection \<open>Strings\<close>

lemma str_split_not_Nil: "str_split c s \<noteq> []"
  by (induction s) (auto split: list.splits)

lemma str_replace_ne_absent:
  "\<not> contains old s \<Longrightarrow> str_replace_ne old new s = s"
  by (induction s) auto

lemma text_after_last_absent:
  "old \<noteq> [] \<Longrightarrow> \<not> contains old s \<Longrightarrow> text_after_last old s = None"
  by (induction s) auto

subsection \<open>Role short name\<close>

text \<open>
  C8, as stated: the role short name is the text of the role identifier after its last
  \<open>role/\<close>, also when \<open>role/\<close> occurs more than once. \<open>replace\<close> removes every
  occurrence and keeps what stands between them: for a role under the path
  \<open>team/role/\<close> the short name is \<open>team/Admin\<close>, while the text after the last
  \<open>role/\<close> is \<open>Admin\<close>.
\<close>

theorem get_role_name_not_after_last:
  "get_role_name ''arn:aws:iam::123456789012:role/team/role/Admin'' = Inr ''team/Admin''
   \<and> text_after_last ''role/'' ''arn:aws:iam::123456789012:role/team/role/Admin'' = Some ''Admin''"
  by (simp add: get_role_name_def index_def str_replace_def)

text \<open>
  C8, amended: for every role identifier whose sixth colon-separated field is
  \<open>role/\<close> followed by a rest in which \<open>role/\<close> does not occur again, the role
  short name is that rest, which is the text after the last \<open>role/\<close> of the field.
\<close>

theorem get_role_name_single_role:
  assumes "index (str_split CHR '':'' role_arn) 5 = Inr (''role/'' @ rest)"
      and "\<not> contains ''role/'' rest"
  shows "get_role_name role_arn = Inr rest
         \<and> text_after_last ''role/'' (''role/'' @ rest) = Some rest"
  using assms
  by (simp add: get_role_name_def str_replace_def str_replace_ne_absent text_after_last_absent)

theorem get_role_name_single_role_witness:
  "get_role_name ''arn:aws:iam::123456789012:role/path/Admin'' = Inr ''path/Admin''
   \<and> text_after_last ''role/'' ''role/path/Admin'' = Some ''path/Admin''"
proof -
  have a: "index (str_split CHR '':'' ''arn:aws:iam::123456789012:role/path/Admin'') 5
             = Inr (''role/'' @ ''path/Admin'')"
    by (simp add: index_def)
  have b: "\<not> contains ''role/'' ''path/Admin''"
    by simp
  show ?thesis
    using get_role_name_single_role [OF a b] by simp
qed

subsection \<open>Account alias of a token\<close>

text \<open>
  C2: when the alias listing fails, the operation returns the account-number segment
  of the assumed-role identity (\<open>123456789012\<close> for
  \<open>arn:aws:sts::123456789012:assumed-role/R/S\<close>), and it raises for no outcome of the
  remote call, an empty list of aliases included. The code, run on that token: with a
  \<open>ClientError\<close> it returns field 5 of the identity, \<open>assumed-role/R/S\<close>, where the
  account number is field 4; with a response that lists no alias, \<open>IndexError\<close>
  escapes.
\<close>

theorem get_account_alias_at_failing_input:
  "get_account_alias (ClientError ''AccessDenied'')
     \<lparr>Credentials = \<lparr>AccessKeyId = ''AK'', SecretAccessKey = ''SK'', SessionToken = ''ST''\<rparr>,
      AssumedRoleUserArn = ''arn:aws:sts::123456789012:assumed-role/R/S''\<rparr>
   = (Inr ''assumed-role/R/S'',
      [''samlkeygen: Failed to get account alias for arn:aws:sts::123456789012:assumed-role/R/S: AccessDenied''
         @ [CHR 0x0A]])
   \<and> account_number_segment ''arn:aws:sts::123456789012:assumed-role/R/S'' = Inr ''123456789012''
   \<and> get_account_alias (Response [])
     \<lparr>Credentials = \<lparr>AccessKeyId = ''AK'', SecretAccessKey = ''SK'', SessionToken = ''ST''\<rparr>,
      AssumedRoleUserArn = ''arn:aws:sts::123456789012:assumed-role/R/S''\<rparr>
   = (Inl IndexError, [])"
  by (simp add: get_account_alias_def account_number_segment_def index_def warn_text_def)

subsection \<open>Running the definitions\<close>

lemmas run_defs =
  authenticate_account_role_def ntlm_authenticate_def example_services_def truthy_def Let_def
  empty_world_def emit_def die_def get_sts_token_def get_account_name_def warn_def
  lookup_account_alias_def get_account_alias_def
  get_role_name_def index_def str_replace_def profile_name_def update_creds_file_def
  update_creds_body_def load_credentials_def config_read_def empty_config_def
  has_section_def add_section_def token_fields_def config_set_def example_token_def
  LOCK_FILE_def CREDS_FILE_def path_join_def sts_only_at_def sts_always_def iam_prod_def warn_text_def

subsection \<open>Account name when the exchange yields no token\<close>

lemma get_sts_token_failed:
  assumes "sts_answer sv (length (events w)) role_arn principal_arn saml region = ClientError e"
  shows "get_sts_token sv role_arn principal_arn saml region w
           = (None, warn (''Failed to get creds for '' @ role_arn @ '': '' @ e)
                      (emit [AssumeRoleWithSaml role_arn principal_arn saml region] w))"
  using assms by (simp add: get_sts_token_def)

lemma get_sts_token_events:
  "\<exists>rest. events (snd (get_sts_token sv role_arn principal_arn saml region w))
            = events w @ AssumeRoleWithSaml role_arn principal_arn saml region # rest"
  by (simp add: get_sts_token_def Let_def split: remote.splits)

lemma get_sts_token_alias_map:
  "alias_map (snd (get_sts_token sv role_arn principal_arn saml region w)) = alias_map w"
  by (simp add: get_sts_token_def Let_def split: remote.splits)

lemma lookup_account_alias_events:
  "\<exists>rest. events (snd (lookup_account_alias sv tok w)) = events w @ rest"
  by (simp add: lookup_account_alias_def split: prod.splits)

lemma get_account_name_no_token:
  assumes "alias_map w principal_arn = None"
      and "sts_answer sv (length (events w)) role_arn principal_arn saml region = ClientError e"
  shows "get_account_name sv principal_arn saml role_arn region w
           = (Inr principal_arn,
              warn (''Failed to get creds for '' @ role_arn @ '': '' @ e)
                (emit [AssumeRoleWithSaml role_arn principal_arn saml region] w))"
  using assms by (simp add: get_account_name_def get_sts_token_failed)

lemma get_account_name_exchanges:
  assumes "alias_map w principal_arn = None"
  shows "\<exists>rest. events (snd (get_account_name sv principal_arn saml role_arn region w))
            = events w @ AssumeRoleWithSaml role_arn principal_arn saml region # rest"
proof -
  obtain t w1 where g: "get_sts_token sv role_arn principal_arn saml region w = (t, w1)"
    by (cases "get_sts_token sv role_arn principal_arn saml region w")
  obtain r1 where e1: "events w1 = events w @ AssumeRoleWithSaml role_arn principal_arn saml region # r1"
    using get_sts_token_events [of sv role_arn principal_arn saml region w] g by auto
  show ?thesis
  proof (cases t)
    case None
    with assms g e1 show ?thesis
      by (simp add: get_account_name_def get_sts_token_alias_map split: option.splits)
  next
    case (Some tok)
    obtain r w2 where l: "lookup_account_alias sv tok w1 = (r, w2)"
      by (cases "lookup_account_alias sv tok w1")
    obtain r2 where e2: "events w2 = events w1 @ r2"
      using lookup_account_alias_events [of sv tok w1] l by auto
    from assms g Some l e1 e2 show ?thesis
      by (cases r) (simp_all add: get_account_name_def split: option.splits)
  qed
qed

lemma worker_after_failed_name:
  assumes "ntlm_authenticate sv url domain username password True w0 = (Inr (sc, saml), w1)"
      and "get_sts_token sv role_arn principal_arn saml region w1 = (Some tok, w)"
      and "get_account_name sv principal_arn saml role_arn region w = (Inr principal_arn, w')"
      and "get_role_name role_arn = Inr role_name"
  shows "authenticate_account_role sv filename fmt principal_arn role_arn
           (url, domain, username, password) region w0
         = update_creds_file sv filename (profile_name fmt principal_arn role_name) tok
             (emit [Stdout (''Writing credentials for profile ''
                              @ profile_name fmt principal_arn role_name @ [CHR 0x0A])] w')"
  using assms by (simp add: authenticate_account_role_def Let_def)

text \<open>
  C10: when the token exchange made by \<open>get_account_name\<close> for a principal that is
  not in the alias cache yields no token, \<open>get_account_name\<close> returns the principal
  identifier itself and raises nothing; the cache is as it was, so the next call for
  the same principal makes the exchange again; and a worker whose own exchange had
  succeeded goes on to write the profile named by the template with \<open>%a\<close> replaced
  by the full principal identifier.
\<close>

theorem get_account_name_exchange_failed:
  assumes "alias_map w principal_arn = None"
      and "sts_answer sv (length (events w)) role_arn principal_arn saml region = ClientError e"
  shows "\<exists>w'. get_account_name sv principal_arn saml role_arn region w = (Inr principal_arn, w')
           \<and> alias_map w' = alias_map w
           \<and> (\<exists>rest. events (snd (get_account_name sv principal_arn saml role_arn region w'))
                        = events w' @ AssumeRoleWithSaml role_arn principal_arn saml region # rest)
           \<and> (\<forall>url domain username password w0 sc w1 tok role_name filename fmt.
                 ntlm_authenticate sv url domain username password True w0 = (Inr (sc, saml), w1)
                 \<and> get_sts_token sv role_arn principal_arn saml region w1 = (Some tok, w)
                 \<and> get_role_name role_arn = Inr role_name
                 \<longrightarrow> authenticate_account_role sv filename fmt principal_arn role_arn
                       (url, domain, username, password) region w0
                     = update_creds_file sv filename
                         (str_replace ''%r'' role_name (str_replace ''%a'' principal_arn fmt)) tok
                         (emit [Stdout (''Writing credentials for profile ''
                                @ str_replace ''%r'' role_name (str_replace ''%a'' principal_arn fmt)
                                @ [CHR 0x0A])] w'))"
proof -
  let ?w' = "warn (''Failed to get creds for '' @ role_arn @ '': '' @ e)
                (emit [AssumeRoleWithSaml role_arn principal_arn saml region] w)"
  have n: "get_account_name sv principal_arn saml role_arn region w = (Inr principal_arn, ?w')"
    using assms by (rule get_account_name_no_token)
  have m: "alias_map ?w' = alias_map w"
    by simp
  have r: "\<exists>rest. events (snd (get_account_name sv principal_arn saml role_arn region ?w'))
                        = events ?w' @ AssumeRoleWithSaml role_arn principal_arn saml region # rest"
    by (rule get_account_name_exchanges) (simp add: assms(1))
  have p: "\<forall>url domain username password w0 sc w1 tok role_name filename fmt.
                 ntlm_authenticate sv url domain username password True w0 = (Inr (sc, saml), w1)
                 \<and> get_sts_token sv role_arn principal_arn saml region w1 = (Some tok, w)
                 \<and> get_role_name role_arn = Inr role_name
                 \<longrightarrow> authenticate_account_role sv filename fmt principal_arn role_arn
                       (url, domain, username, password) region w0
                     = update_creds_file sv filename
                         (str_replace ''%r'' role_name (str_replace ''%a'' principal_arn fmt)) tok
                         (emit [Stdout (''Writing credentials for profile ''
                                @ str_replace ''%r'' role_name (str_replace ''%a'' principal_arn fmt)
                                @ [CHR 0x0A])] ?w')"
    using worker_after_failed_name [where w = w and w' = ?w', OF _ _ n]
    by (simp add: profile_name_def)
  from n m r p show ?thesis by blast
qed

theorem get_account_name_exchange_failed_witness:
  "alias_map
     (empty_world\<lparr>events :=
        [HttpGet ''https://adfs.example.com/'' (''CORP'' @ [CHR 0x5C] @ ''alice'') ''secret'',
         AssumeRoleWithSaml ''arn:aws:iam::123456789012:role/Admin''
           ''arn:aws:iam::123456789012:saml-provider/ADFS'' ''assertion'' ''us-east-1'']\<rparr>)
     ''arn:aws:iam::123456789012:saml-provider/ADFS'' = None
   \<and> sts_answer (example_services (sts_only_at 1) iam_prod (example_assertion [])) 2
         ''arn:aws:iam::123456789012:role/Admin'' ''arn:aws:iam::123456789012:saml-provider/ADFS''
         ''assertion'' ''us-east-1'' = ClientError ''AccessDenied''
   \<and> fst (get_account_name (example_services (sts_only_at 1) iam_prod (example_assertion []))
         ''arn:aws:iam::123456789012:saml-provider/ADFS'' ''assertion''
         ''arn:aws:iam::123456789012:role/Admin'' ''us-east-1''
         (empty_world\<lparr>events :=
            [HttpGet ''https://adfs.example.com/'' (''CORP'' @ [CHR 0x5C] @ ''alice'') ''secret'',
             AssumeRoleWithSaml ''arn:aws:iam::123456789012:role/Admin''
               ''arn:aws:iam::123456789012:saml-provider/ADFS'' ''assertion'' ''us-east-1'']\<rparr>))
       = Inr ''arn:aws:iam::123456789012:saml-provider/ADFS''
   \<and> map_option sections
         (files (snd (authenticate_account_role
                        (example_services (sts_only_at 1) iam_prod (example_assertion []))
                        ''/tmp/creds'' ''%a:%r'' ''arn:aws:iam::123456789012:saml-provider/ADFS''
                        ''arn:aws:iam::123456789012:role/Admin''
                        (''https://adfs.example.com/'', ''CORP'', ''alice'', Some ''secret'')
                        ''us-east-1'' empty_world))
            ''/tmp/creds'')
       = Some [(''arn:aws:iam::123456789012:saml-provider/ADFS:Admin'',
                [(''aws_access_key_id'', ''AK''), (''aws_secret_access_key'', ''SK''),
                 (''aws_session_token'', ''ST''), (''aws_security_token'', ''ST''),
                 (''last_updated'', ''2020-01-01T00:00:00Z'')])]"
  (is "?A \<and> ?B \<and> ?C \<and> ?D")
proof -
  let ?sv = "example_services (sts_only_at 1) iam_prod (example_assertion [])"
  let ?P = "''arn:aws:iam::123456789012:saml-provider/ADFS''"
  let ?R = "''arn:aws:iam::123456789012:role/Admin''"
  let ?W = "empty_world\<lparr>events :=
        [HttpGet ''https://adfs.example.com/'' (''CORP'' @ [CHR 0x5C] @ ''alice'') ''secret'',
         AssumeRoleWithSaml ?R ?P ''assertion'' ''us-east-1'']\<rparr>"
  have a: ?A
    by (simp add: empty_world_def)
  have b: "sts_answer ?sv (length (events ?W)) ?R ?P ''assertion'' ''us-east-1''
             = ClientError ''AccessDenied''"
    by (simp add: example_services_def sts_only_at_def)
  from get_account_name_exchange_failed [OF a b]
  obtain w' where all: "get_account_name ?sv ?P ''assertion'' ?R ''us-east-1'' ?W = (Inr ?P, w')
    \<and> alias_map w' = alias_map ?W
    \<and> (\<exists>rest. events (snd (get_account_name ?sv ?P ''assertion'' ?R ''us-east-1'' w'))
                        = events w' @ AssumeRoleWithSaml ?R ?P ''assertion'' ''us-east-1'' # rest)
    \<and> (\<forall>url domain username password w0 sc w1 tok role_name filename fmt.
              ntlm_authenticate ?sv url domain username password True w0 = (Inr (sc, ''assertion''), w1)
              \<and> get_sts_token ?sv ?R ?P ''assertion'' ''us-east-1'' w1 = (Some tok, ?W)
              \<and> get_role_name ?R = Inr role_name
              \<longrightarrow> authenticate_account_role ?sv filename fmt ?P ?R
                       (url, domain, username, password) ''us-east-1'' w0
                  = update_creds_file ?sv filename
                      (str_replace ''%r'' role_name (str_replace ''%a'' ?P fmt)) tok
                      (emit [Stdout (''Writing credentials for profile ''
                                @ str_replace ''%r'' role_name (str_replace ''%a'' ?P fmt)
                                @ [CHR 0x0A])] w'))" ..
  from all have n: "get_account_name ?sv ?P ''assertion'' ?R ''us-east-1'' ?W = (Inr ?P, w')"
    by (rule conjunct1)
  from all have p: "\<And>url domain username password w0 sc w1 tok role_name filename fmt.
              ntlm_authenticate ?sv url domain username password True w0 = (Inr (sc, ''assertion''), w1)
              \<Longrightarrow> get_sts_token ?sv ?R ?P ''assertion'' ''us-east-1'' w1 = (Some tok, ?W)
              \<Longrightarrow> get_role_name ?R = Inr role_name
              \<Longrightarrow> authenticate_account_role ?sv filename fmt ?P ?R
                       (url, domain, username, password) ''us-east-1'' w0
                  = update_creds_file ?sv filename
                      (str_replace ''%r'' role_name (str_replace ''%a'' ?P fmt)) tok
                      (emit [Stdout (''Writing credentials for profile ''
                                @ str_replace ''%r'' role_name (str_replace ''%a'' ?P fmt)
                                @ [CHR 0x0A])] w')"
    by (elim conjE allE impE) (intro conjI, assumption+)
  have c: ?C
    using n by simp
  have w': "w' = snd (get_account_name ?sv ?P ''assertion'' ?R ''us-east-1'' ?W)"
    using n by simp
  have i: "ntlm_authenticate ?sv ''https://adfs.example.com/'' ''CORP'' ''alice'' (Some ''secret'') True
             empty_world
           = (Inr ((''https://adfs.example.com/'', ''CORP'', ''alice'', Some ''secret''), ''assertion''),
              empty_world\<lparr>events :=
                [HttpGet ''https://adfs.example.com/'' (''CORP'' @ [CHR 0x5C] @ ''alice'') ''secret'']\<rparr>)"
    by (simp add: ntlm_authenticate_def example_services_def truthy_def Let_def empty_world_def
          emit_def)
  have t: "get_sts_token ?sv ?R ?P ''assertion'' ''us-east-1''
             (empty_world\<lparr>events :=
                [HttpGet ''https://adfs.example.com/'' (''CORP'' @ [CHR 0x5C] @ ''alice'') ''secret'']\<rparr>)
           = (Some example_token, ?W)"
    by (simp add: get_sts_token_def example_services_def sts_only_at_def Let_def empty_world_def
          emit_def)
  have r: "get_role_name ?R = Inr ''Admin''"
    by (simp add: get_role_name_def index_def str_replace_def)
  have d: ?D
    unfolding p [OF i t r] w'
    by (simp add: run_defs)
  have b2: ?B
    by (simp add: example_services_def sts_only_at_def)
  from a b2 c d show ?thesis
    by blast
qed

subsection \<open>Credential store writer\<close>

lemma map_of_dict_set:
  "map_of (dict_set kvs k v) k' = (if k' = k then Some v else map_of kvs k')"
  by (induction kvs) auto

lemma config_set_section:
  assumes "name \<noteq> []" and "name \<noteq> ''DEFAULT''" and "map_of (sections c) name = Some opts"
  shows "config_set c name k v = Inr (c\<lparr>sections := dict_set (sections c) name (dict_set opts k v)\<rparr>)"
  using assms by (simp add: config_set_def)

lemma set_all_section:
  assumes "name \<noteq> []" and "name \<noteq> ''DEFAULT''" and "map_of (sections c) name = Some opts"
  shows "\<exists>c'. set_all c name kvs = Inr c'
           \<and> defaults c' = defaults c
           \<and> map_of (sections c') name = Some (set_options opts kvs)
           \<and> (\<forall>p. p \<noteq> name \<longrightarrow> map_of (sections c') p = map_of (sections c) p)"
  using assms
proof (induction kvs arbitrary: c opts)
  case Nil
  then show ?case by simp
next
  case (Cons kv kvs)
  obtain k v where kv: "kv = (k, v)" by (cases kv)
  let ?c1 = "c\<lparr>sections := dict_set (sections c) name (dict_set opts k v)\<rparr>"
  have s: "config_set c name k v = Inr ?c1"
    using Cons.prems by (rule config_set_section)
  have m: "map_of (sections ?c1) name = Some (dict_set opts k v)"
    by (simp add: map_of_dict_set)
  from Cons.IH [OF Cons.prems(1,2) m]
  obtain c' where c': "set_all ?c1 name kvs = Inr c'" "defaults c' = defaults ?c1"
    "map_of (sections c') name = Some (set_options (dict_set opts k v) kvs)"
    "\<forall>p. p \<noteq> name \<longrightarrow> map_of (sections c') p = map_of (sections ?c1) p"
    by blast
  show ?case
    using c' s kv by (simp add: map_of_dict_set)
qed

lemma has_section_map_of: "has_section c name \<longleftrightarrow> map_of (sections c) name \<noteq> None"
  by (simp add: has_section_def map_of_eq_None_iff)

lemma map_of_set_options_other:
  "k \<notin> set (map fst kvs) \<Longrightarrow> map_of (set_options opts kvs) k = map_of opts k"
  by (induction kvs arbitrary: opts) (auto simp: map_of_dict_set)

lemma events_load [simp]:
  "events (snd (load_credentials filename True w)) = events w @ [ReadFile filename]"
  by (simp add: load_credentials_def Let_def split: option.splits)

lemma load_credentials_True:
  "load_credentials filename True w
     = (config_read (files w) filename,
        emit [ReadFile filename] (w\<lparr>loaded_config := Some (config_read (files w) filename)\<rparr>))"
  by (simp add: load_credentials_def Let_def split: option.splits)

lemma update_creds_body_ok:
  assumes "profile \<noteq> []" and "profile \<noteq> ''DEFAULT''"
  shows "\<exists>c' w'. update_creds_body sv filename profile tok w = (Inr (), w')
           \<and> files w' = (files w)(filename \<mapsto> c')
           \<and> defaults c' = defaults (config_read (files w) filename)
           \<and> map_of (sections c') profile
               = Some (set_options (case map_of (sections (config_read (files w) filename)) profile of
                                      None \<Rightarrow> [] | Some opts \<Rightarrow> opts)
                         (token_fields tok (utcnow sv (Suc (length (events w))))))
           \<and> (\<forall>p. p \<noteq> profile \<longrightarrow> map_of (sections c') p
                      = map_of (sections (config_read (files w) filename)) p)"
proof -
  let ?c = "config_read (files w) filename"
  let ?w1 = "emit [ReadFile filename] (w\<lparr>loaded_config := Some ?c\<rparr>)"
  let ?kvs = "token_fields tok (utcnow sv (Suc (length (events w))))"
  show ?thesis
  proof (cases "map_of (sections ?c) profile")
    case None
    let ?c1 = "?c\<lparr>sections := sections ?c @ [(profile, [])]\<rparr>"
    have a: "add_section ?c profile = Inr ?c1" and h: "\<not> has_section ?c profile"
      using None assms by (simp_all add: add_section_def has_section_map_of)
    have m: "map_of (sections ?c1) profile = Some []"
      using None by (simp add: map_add_def)
    from set_all_section [OF assms m, of ?kvs]
    obtain c' where c': "set_all ?c1 profile ?kvs = Inr c'" "defaults c' = defaults ?c1"
      "map_of (sections c') profile = Some (set_options [] ?kvs)"
      "\<forall>p. p \<noteq> profile \<longrightarrow> map_of (sections c') p = map_of (sections ?c1) p"
      by blast
    have o: "\<forall>p. p \<noteq> profile \<longrightarrow> map_of (sections c') p = map_of (sections ?c) p"
      using c'(4) by (auto simp: map_add_def split: option.splits)
    show ?thesis
      using None a h c'(1,2,3) o
      by (simp add: update_creds_body_def load_credentials_True) (rule exI [of _ c'], simp)
  next
    case (Some opts)
    have h: "has_section ?c profile"
      using Some by (simp add: has_section_map_of)
    from set_all_section [OF assms Some, of ?kvs]
    obtain c' where c': "set_all ?c profile ?kvs = Inr c'" "defaults c' = defaults ?c"
      "map_of (sections c') profile = Some (set_options opts ?kvs)"
      "\<forall>p. p \<noteq> profile \<longrightarrow> map_of (sections c') p = map_of (sections ?c) p"
      by blast
    show ?thesis
      using Some h c'
      by (simp add: update_creds_body_def load_credentials_True) (rule exI [of _ c'], simp)
  qed
qed

lemma update_creds_file_ok:
  assumes "profile \<noteq> []" and "profile \<noteq> ''DEFAULT''"
  shows "\<exists>c' w'. update_creds_file sv filename profile tok w = (Inr (), w')
           \<and> files w' = (files w)(filename \<mapsto> c')
           \<and> defaults c' = defaults (config_read (files w) filename)
           \<and> map_of (sections c') profile
               = Some (set_options (case map_of (sections (config_read (files w) filename)) profile of
                                      None \<Rightarrow> [] | Some opts \<Rightarrow> opts)
                         (token_fields tok (utcnow sv (Suc (Suc (length (events w)))))))
           \<and> (\<forall>p. p \<noteq> profile \<longrightarrow> map_of (sections c') p
                      = map_of (sections (config_read (files w) filename)) p)"
proof -
  let ?w0 = "emit [LockAcquire (LOCK_FILE sv)] w"
  from update_creds_body_ok [OF assms, of sv filename tok ?w0]
  obtain c' w' where b: "update_creds_body sv filename profile tok ?w0 = (Inr (), w')"
    "files w' = (files ?w0)(filename \<mapsto> c')"
    "defaults c' = defaults (config_read (files ?w0) filename)"
    "map_of (sections c') profile
       = Some (set_options (case map_of (sections (config_read (files ?w0) filename)) profile of
                              None \<Rightarrow> [] | Some opts \<Rightarrow> opts)
                 (token_fields tok (utcnow sv (Suc (length (events ?w0))))))"
    "\<forall>p. p \<noteq> profile \<longrightarrow> map_of (sections c') p
                      = map_of (sections (config_read (files ?w0) filename)) p"
    by blast
  show ?thesis
    using b by (simp add: update_creds_file_def) (rule exI [of _ c'], simp)
qed

lemma set_options_fields:
  "map_of (set_options opts (token_fields tok stamp)) ''aws_access_key_id'' = Some (AccessKeyId (Credentials tok))"
  "map_of (set_options opts (token_fields tok stamp)) ''aws_secret_access_key'' = Some (SecretAccessKey (Credentials tok))"
  "map_of (set_options opts (token_fields tok stamp)) ''aws_session_token'' = Some (SessionToken (Credentials tok))"
  "map_of (set_options opts (token_fields tok stamp)) ''aws_security_token'' = Some (SessionToken (Credentials tok))"
  "map_of (set_options opts (token_fields tok stamp)) ''last_updated'' = Some stamp"
  by (simp_all add: token_fields_def map_of_dict_set)

lemma set_options_fresh: "set_options [] (token_fields tok stamp) = token_fields tok stamp"
  by (simp add: token_fields_def)

lemma update_events:
  "\<exists>mid. events (snd (update_creds_file sv filename profile tok w))
            = events w @ LockAcquire (LOCK_FILE sv) # ReadFile filename # mid @ [LockRelease (LOCK_FILE sv)]
          \<and> (mid = [] \<or> mid = [WriteFile filename])"
  by (simp add: update_creds_file_def update_creds_body_def load_credentials_True
        split: sum.splits prod.splits if_splits)

text \<open>
  C3, as stated: the lock that the writer takes is the sibling \<open><storePath>.lck\<close> of
  the store path it is given. The lock file is the constant \<open>LOCK_FILE\<close>, fixed when
  the module is loaded: a write to \<open>/tmp/creds\<close> takes the lock
  \<open>/home/user/.aws/credentials.lck\<close>, not \<open>/tmp/creds.lck\<close>.
\<close>

theorem update_creds_file_lock_not_sibling:
  "events (snd (update_creds_file (example_services sts_always iam_prod (example_assertion []))
                  ''/tmp/creds'' ''p3'' example_token empty_world))
   = [LockAcquire ''/home/user/.aws/credentials.lck'', ReadFile ''/tmp/creds'',
      WriteFile ''/tmp/creds'', LockRelease ''/home/user/.aws/credentials.lck'']"
  by (simp add: run_defs)

text \<open>
  C3, amended: for every store path, profile and token, the writer takes and releases
  one and the same lock, \<open>LOCK_FILE\<close>, which is \<open>credentials.lck\<close> in the directory
  \<open>AWS_DIR\<close> and does not depend on the store path; between the two it reads the
  store at the given path and, unless the update raised, writes it.
\<close>

theorem update_creds_file_lock:
  "LOCK_FILE sv = path_join (aws_dir sv) ''credentials'' @ ''.lck''
   \<and> (\<exists>mid. events (snd (update_creds_file sv filename profile tok w))
               = events w @ LockAcquire (LOCK_FILE sv) # ReadFile filename # mid
                   @ [LockRelease (LOCK_FILE sv)]
             \<and> (mid = [] \<or> mid = [WriteFile filename]))"
  using update_events [of sv filename profile tok w]
  by (simp add: LOCK_FILE_def CREDS_FILE_def)

text \<open>
  C4, as stated: after the write of \<open>p3\<close> into a store that contains \<open>p1\<close> and
  \<open>p2\<close>, \<open>p3\<close> contains exactly the five keys, \<open>last_updated\<close> among them set from
  the token. In a store that also holds \<open>p3\<close> with a \<open>region\<close> key, \<open>p3\<close>
  has six keys after the write; and the same token written when the clock reads another
  time gives another \<open>last_updated\<close>.
\<close>

theorem update_creds_file_keeps_and_clock:
  "map_option sections
     (files (snd (update_creds_file (example_services sts_always iam_prod (example_assertion []))
                    ''/tmp/creds'' ''p3'' example_token
                    (empty_world\<lparr>files := [''/tmp/creds'' \<mapsto> example_store]\<rparr>)))
        ''/tmp/creds'')
   = Some [(''p1'', [(''aws_access_key_id'', ''A1''), (''region'', ''eu-west-1'')]),
           (''p2'', [(''aws_access_key_id'', ''A2'')]),
           (''p3'', [(''region'', ''us-east-1''), (''aws_access_key_id'', ''AK''),
                     (''aws_secret_access_key'', ''SK''), (''aws_session_token'', ''ST''),
                     (''aws_security_token'', ''ST''), (''last_updated'', ''2020-01-01T00:00:00Z'')])]
   \<and> map_option sections
     (files (snd (update_creds_file
                    ((example_services sts_always iam_prod (example_assertion []))
                       \<lparr>utcnow := (\<lambda>n. ''2021-06-30T12:00:00Z'')\<rparr>)
                    ''/tmp/creds'' ''p3'' example_token
                    (empty_world\<lparr>files := [''/tmp/creds'' \<mapsto> example_store]\<rparr>)))
        ''/tmp/creds'')
   = Some [(''p1'', [(''aws_access_key_id'', ''A1''), (''region'', ''eu-west-1'')]),
           (''p2'', [(''aws_access_key_id'', ''A2'')]),
           (''p3'', [(''region'', ''us-east-1''), (''aws_access_key_id'', ''AK''),
                     (''aws_secret_access_key'', ''SK''), (''aws_session_token'', ''ST''),
                     (''aws_security_token'', ''ST''), (''last_updated'', ''2021-06-30T12:00:00Z'')])]"
  by (simp add: run_defs example_store_def)

text \<open>
  C4, amended: for every store that contains profiles \<open>p1\<close> and \<open>p2\<close> and every
  write of a profile \<open>p3\<close> distinct from them whose name is neither empty nor
  \<open>DEFAULT\<close>, the writer completes, and afterwards the store holds \<open>p1\<close>, \<open>p2\<close>
  and every other profile but \<open>p3\<close> with their options unchanged; \<open>p3\<close> holds
  \<open>aws_access_key_id\<close>, \<open>aws_secret_access_key\<close>, \<open>aws_session_token\<close> and
  \<open>aws_security_token\<close> (equal to the session token) from the token and
  \<open>last_updated\<close> from the clock at the write; \<open>p3\<close> holds exactly these five
  options when it was not in the store before, and keeps every other option it had.
\<close>

theorem update_creds_file_frame:
  assumes "p3 \<noteq> []" and "p3 \<noteq> ''DEFAULT''" and "p1 \<noteq> p3" and "p2 \<noteq> p3"
      and "files w filename = Some c"
      and "map_of (sections c) p1 = Some o1" and "map_of (sections c) p2 = Some o2"
  shows "\<exists>w' c' opts.
           update_creds_file sv filename p3 tok w = (Inr (), w')
           \<and> files w' filename = Some c'
           \<and> map_of (sections c') p1 = Some o1
           \<and> map_of (sections c') p2 = Some o2
           \<and> (\<forall>p. p \<noteq> p3 \<longrightarrow> map_of (sections c') p = map_of (sections c) p)
           \<and> map_of (sections c') p3 = Some opts
           \<and> map_of opts ''aws_access_key_id'' = Some (AccessKeyId (Credentials tok))
           \<and> map_of opts ''aws_secret_access_key'' = Some (SecretAccessKey (Credentials tok))
           \<and> map_of opts ''aws_session_token'' = Some (SessionToken (Credentials tok))
           \<and> map_of opts ''aws_security_token'' = Some (SessionToken (Credentials tok))
           \<and> map_of opts ''last_updated'' = Some (utcnow sv (length (events w) + 2))
           \<and> (map_of (sections c) p3 = None
                \<longrightarrow> opts = token_fields tok (utcnow sv (length (events w) + 2)))
           \<and> (\<forall>old k. map_of (sections c) p3 = Some old
                        \<and> k \<notin> {''aws_access_key_id'', ''aws_secret_access_key'',
                                ''aws_session_token'', ''aws_security_token'', ''last_updated''}
                \<longrightarrow> map_of opts k = map_of old k)"
proof -
  let ?stamp = "utcnow sv (length (events w) + 2)"
  let ?old = "case map_of (sections c) p3 of None \<Rightarrow> [] | Some opts \<Rightarrow> opts"
  let ?opts = "set_options ?old (token_fields tok ?stamp)"
  have r: "config_read (files w) filename = c"
    using assms(5) by (simp add: config_read_def)
  from update_creds_file_ok [OF assms(1,2), of sv filename tok w]
  obtain c' w' where u: "update_creds_file sv filename p3 tok w = (Inr (), w')"
    and f: "files w' = (files w)(filename \<mapsto> c')"
    and s: "map_of (sections c') p3 = Some ?opts"
    and o: "\<forall>p. p \<noteq> p3 \<longrightarrow> map_of (sections c') p = map_of (sections c) p"
    unfolding r by auto
  have f': "files w' filename = Some c'"
    using f by simp
  have k1: "map_of (sections c') p1 = Some o1" and k2: "map_of (sections c') p2 = Some o2"
    using o assms(3,4,6,7) by simp_all
  have n: "map_of (sections c) p3 = None \<longrightarrow> ?opts = token_fields tok ?stamp"
    by (simp add: set_options_fresh)
  have e: "\<forall>old k. map_of (sections c) p3 = Some old
                        \<and> k \<notin> {''aws_access_key_id'', ''aws_secret_access_key'',
                                ''aws_session_token'', ''aws_security_token'', ''last_updated''}
                \<longrightarrow> map_of ?opts k = map_of old k"
  proof (intro allI impI)
    fix old k
    assume a: "map_of (sections c) p3 = Some old
                        \<and> k \<notin> {''aws_access_key_id'', ''aws_secret_access_key'',
                                ''aws_session_token'', ''aws_security_token'', ''last_updated''}"
    then have "k \<notin> set (map fst (token_fields tok ?stamp))"
      by (simp add: token_fields_def)
    then have "map_of ?opts k = map_of ?old k"
      by (rule map_of_set_options_other)
    with a show "map_of ?opts k = map_of old k"
      by simp
  qed
  show ?thesis
    using u f' k1 k2 o s n e set_options_fields [of ?old tok ?stamp]
    by (intro exI [of _ w'] exI [of _ c'] exI [of _ ?opts] conjI) simp_all
qed

theorem update_creds_file_frame_witness:
  "(\<exists>w' c'. update_creds_file (example_services sts_always iam_prod (example_assertion []))
               ''/tmp/creds'' ''p4'' example_token
               (empty_world\<lparr>files := [''/tmp/creds'' \<mapsto> example_store]\<rparr>) = (Inr (), w')
            \<and> files w' ''/tmp/creds'' = Some c'
            \<and> map_of (sections c') ''p1''
                = Some [(''aws_access_key_id'', ''A1''), (''region'', ''eu-west-1'')]
            \<and> map_of (sections c') ''p2'' = Some [(''aws_access_key_id'', ''A2'')]
            \<and> map_of (sections c') ''p4''
                = Some [(''aws_access_key_id'', ''AK''), (''aws_secret_access_key'', ''SK''),
                        (''aws_session_token'', ''ST''), (''aws_security_token'', ''ST''),
                        (''last_updated'', ''2020-01-01T00:00:00Z'')])
   \<and> (\<exists>w' c' opts. update_creds_file (example_services sts_always iam_prod (example_assertion []))
               ''/tmp/creds'' ''p3'' example_token
               (empty_world\<lparr>files := [''/tmp/creds'' \<mapsto> example_store]\<rparr>) = (Inr (), w')
            \<and> files w' ''/tmp/creds'' = Some c'
            \<and> map_of (sections c') ''p1''
                = Some [(''aws_access_key_id'', ''A1''), (''region'', ''eu-west-1'')]
            \<and> map_of (sections c') ''p3'' = Some opts
            \<and> map_of opts ''aws_security_token'' = Some ''ST''
            \<and> map_of opts ''region'' = Some ''us-east-1'')"
proof -
  let ?sv = "example_services sts_always iam_prod (example_assertion [])"
  let ?w = "empty_world\<lparr>files := [''/tmp/creds'' \<mapsto> example_store]\<rparr>"
  have f: "files ?w ''/tmp/creds'' = Some example_store"
    by simp
  have p1: "map_of (sections example_store) ''p1''
              = Some [(''aws_access_key_id'', ''A1''), (''region'', ''eu-west-1'')]"
    and p2: "map_of (sections example_store) ''p2'' = Some [(''aws_access_key_id'', ''A2'')]"
    and p3: "map_of (sections example_store) ''p3'' = Some [(''region'', ''us-east-1'')]"
    and p4: "map_of (sections example_store) ''p4'' = None"
    by (simp_all add: example_store_def)
  have d4: "''p4'' \<noteq> []" "''p4'' \<noteq> ''DEFAULT''" "''p1'' \<noteq> ''p4''" "''p2'' \<noteq> ''p4''"
    and d3: "''p3'' \<noteq> []" "''p3'' \<noteq> ''DEFAULT''" "''p1'' \<noteq> ''p3''" "''p2'' \<noteq> ''p3''"
    by simp_all
  have s: "utcnow ?sv n = ''2020-01-01T00:00:00Z''" for n
    by (simp add: example_services_def)
  have t: "token_fields example_token ''2020-01-01T00:00:00Z''
             = [(''aws_access_key_id'', ''AK''), (''aws_secret_access_key'', ''SK''),
                (''aws_session_token'', ''ST''), (''aws_security_token'', ''ST''),
                (''last_updated'', ''2020-01-01T00:00:00Z'')]"
    by (simp add: token_fields_def example_token_def)
  have a: "\<exists>w' c'. update_creds_file ?sv ''/tmp/creds'' ''p4'' example_token ?w = (Inr (), w')
            \<and> files w' ''/tmp/creds'' = Some c'
            \<and> map_of (sections c') ''p1''
                = Some [(''aws_access_key_id'', ''A1''), (''region'', ''eu-west-1'')]
            \<and> map_of (sections c') ''p2'' = Some [(''aws_access_key_id'', ''A2'')]
            \<and> map_of (sections c') ''p4''
                = Some [(''aws_access_key_id'', ''AK''), (''aws_secret_access_key'', ''SK''),
                        (''aws_session_token'', ''ST''), (''aws_security_token'', ''ST''),
                        (''last_updated'', ''2020-01-01T00:00:00Z'')]"
    using update_creds_file_frame [OF d4 f p1 p2, of ?sv example_token] p4
    unfolding s t by blast
  have r: "\<And>opts. (\<forall>old k. map_of (sections example_store) ''p3'' = Some old
                        \<and> k \<notin> {''aws_access_key_id'', ''aws_secret_access_key'',
                                ''aws_session_token'', ''aws_security_token'', ''last_updated''}
                \<longrightarrow> map_of opts k = map_of old k) \<Longrightarrow> map_of opts ''region'' = Some ''us-east-1''"
    using p3 by simp
  have b: "\<exists>w' c' opts. update_creds_file ?sv ''/tmp/creds'' ''p3'' example_token ?w = (Inr (), w')
            \<and> files w' ''/tmp/creds'' = Some c'
            \<and> map_of (sections c') ''p1''
                = Some [(''aws_access_key_id'', ''A1''), (''region'', ''eu-west-1'')]
            \<and> map_of (sections c') ''p3'' = Some opts
            \<and> map_of opts ''aws_security_token'' = Some ''ST''
            \<and> map_of opts ''region'' = Some ''us-east-1''"
    using update_creds_file_frame [OF d3 f p1 p2, of ?sv example_token] r
    by (auto simp: example_token_def)
  from a b show ?thesis ..
qed

subsection \<open>Binding extractor\<close>

lemma str_split_no_sep:
  "count_list t c = 0 \<Longrightarrow> str_split c t = [t]"
  by (induction t) (auto split: if_splits)

lemma length_str_split: "length (str_split c t) = Suc (count_list t c)"
  by (induction t) (auto split: list.splits)

lemma str_split_one_sep:
  "count_list t c = 1 \<Longrightarrow>
     str_split c t = [takeWhile (\<lambda>x. x \<noteq> c) t, drop 1 (dropWhile (\<lambda>x. x \<noteq> c) t)]"
proof (induction t)
  case Nil
  then show ?case by simp
next
  case (Cons x xs)
  show ?case
  proof (cases "x = c")
    case True
    with Cons.prems have "count_list xs c = 0" by simp
    with True show ?thesis by (simp add: str_split_no_sep)
  next
    case False
    with Cons.prems have "count_list xs c = 1" by simp
    with False Cons.IH show ?thesis by simp
  qed
qed

lemma role_tuple_Inr_iff: "role_tuple args = Inr b \<longleftrightarrow> args = [fst b, snd b]"
  by (cases b) (auto simp: role_tuple_def split: list.splits)

lemma value_binding_Inr_iff:
  "value_binding v = Inr b \<longleftrightarrow>
     (\<exists>t. text_of v = Some t \<and> count_list t CHR '','' = 1 \<and> b = split_first_comma t)"
proof (cases "text_of v")
  case None
  then show ?thesis by (simp add: value_binding_def)
next
  case (Some t)
  show ?thesis
  proof (cases "count_list t CHR '','' = 1")
    case True
    with Some show ?thesis
      by (auto simp: value_binding_def role_tuple_Inr_iff str_split_one_sep split_first_comma_def)
  next
    case False
    have "length (str_split CHR '','' t) \<noteq> 2"
      using False by (simp add: length_str_split)
    then have "str_split CHR '','' t \<noteq> [fst b, snd b]"
      by auto
    with Some False show ?thesis
      by (simp add: value_binding_def role_tuple_Inr_iff)
  qed
qed

lemma collect_Inr_iff:
  "collect f xs = Inr ys \<longleftrightarrow> list_all2 (\<lambda>x y. f x = Inr y) xs ys"
proof (induction xs arbitrary: ys)
  case Nil
  then show ?case by auto
next
  case (Cons x xs)
  show ?case
    by (cases "f x"; cases "collect f xs"; cases ys) (auto simp: Cons.IH [symmetric])
qed

lemma extract_roles_xml_Inr_iff:
  "extract_roles_xml doc = Inr bs \<longleftrightarrow>
     (\<forall>v \<in> set (role_values doc). \<exists>t. text_of v = Some t \<and> count_list t CHR '','' = 1)
     \<and> bs = map (\<lambda>v. split_first_comma (the (text_of v))) (role_values doc)"
  (is "?L \<longleftrightarrow> ?R")
proof
  assume ?L
  then have a: "list_all2 (\<lambda>v b. value_binding v = Inr b) (role_values doc) bs"
    by (simp add: extract_roles_xml_def collect_Inr_iff)
  then have l: "length bs = length (role_values doc)"
    by (simp add: list_all2_lengthD)
  have n: "\<And>i. i < length bs \<Longrightarrow> value_binding (role_values doc ! i) = Inr (bs ! i)"
    using a by (simp add: list_all2_conv_all_nth)
  have 1: "\<forall>v \<in> set (role_values doc). \<exists>t. text_of v = Some t \<and> count_list t CHR '','' = 1"
  proof
    fix v assume "v \<in> set (role_values doc)"
    then obtain i where "i < length (role_values doc)" "role_values doc ! i = v"
      by (auto simp: in_set_conv_nth)
    with n [of i] l show "\<exists>t. text_of v = Some t \<and> count_list t CHR '','' = 1"
      by (auto simp: value_binding_Inr_iff)
  qed
  have 2: "bs = map (\<lambda>v. split_first_comma (the (text_of v))) (role_values doc)"
  proof (rule nth_equalityI)
    show "length bs = length (map (\<lambda>v. split_first_comma (the (text_of v))) (role_values doc))"
      using l by simp
  next
    fix i assume "i < length bs"
    with n [of i] l show "bs ! i = map (\<lambda>v. split_first_comma (the (text_of v))) (role_values doc) ! i"
      by (auto simp: value_binding_Inr_iff)
  qed
  from 1 2 show ?R ..
next
  assume r: ?R
  have "list_all2 (\<lambda>v b. value_binding v = Inr b) (role_values doc)
          (map (\<lambda>v. split_first_comma (the (text_of v))) (role_values doc))"
    unfolding list_all2_conv_all_nth
  proof (intro conjI allI impI)
    show "length (role_values doc) = length (map (\<lambda>v. split_first_comma (the (text_of v))) (role_values doc))"
      by simp
  next
    fix i assume i: "i < length (role_values doc)"
    then have "role_values doc ! i \<in> set (role_values doc)" by simp
    with r obtain t where "text_of (role_values doc ! i) = Some t" "count_list t CHR '','' = 1"
      by blast
    with i show "value_binding (role_values doc ! i)
            = Inr (map (\<lambda>v. split_first_comma (the (text_of v))) (role_values doc) ! i)"
      by (simp add: value_binding_Inr_iff)
  qed
  with r show ?L
    by (simp add: extract_roles_xml_def collect_Inr_iff)
qed

lemmas xml_defs = extract_roles_xml_def role_values_def iter_def example_assertion_def
  role_attribute_def ATTRIBUTE_URN_def ATTRIBUTE_VALUE_URN_def AWS_ATTRIBUTE_ROLE_def
  value_binding_def role_tuple_def

text \<open>
  C5, as stated: every value under the role attribute is split on its first comma, also
  when the role part contains a comma. The code splits on every comma and hands the
  parts to a constructor of two fields: a value whose role part contains a comma gives
  three parts and \<open>TypeError\<close>, where the split on the first comma would give a pair.
\<close>

theorem extract_roles_comma_in_role:
  "extract_roles
     (example_services sts_always iam_prod
        (example_assertion
           [''arn:aws:iam::123456789012:saml-provider/ADFS,arn:aws:iam::123456789012:role/dev,ops'']))
     ''assertion'' = Inl TypeError
   \<and> split_first_comma
         ''arn:aws:iam::123456789012:saml-provider/ADFS,arn:aws:iam::123456789012:role/dev,ops''
       = (''arn:aws:iam::123456789012:saml-provider/ADFS'', ''arn:aws:iam::123456789012:role/dev,ops'')"
  by (simp add: extract_roles_def example_services_def xml_defs split_first_comma_def)

text \<open>
  C5, amended: for an assertion that decodes to a document, the extractor returns a
  list of bindings exactly when every value under the role attribute has a text with
  exactly one comma; the list then has one binding for each of these values, in
  document order, each the value split at its comma (which is its first comma) into
  principal and role identifier. A value with no comma or with more than one makes
  the extraction raise.
\<close>

theorem extract_roles_one_comma:
  assumes "decode_assertion sv saml_response = Inr doc"
  shows "extract_roles sv saml_response = Inr bs \<longleftrightarrow>
           (\<forall>v \<in> set (role_values doc). \<exists>t. text_of v = Some t \<and> count_list t CHR '','' = 1)
           \<and> bs = map (\<lambda>v. split_first_comma (the (text_of v))) (role_values doc)"
  using assms by (simp add: extract_roles_def extract_roles_xml_Inr_iff)

theorem extract_roles_one_comma_witness:
  "extract_roles
     (example_services sts_always iam_prod
        (example_assertion
           [''arn:aws:iam::123456789012:saml-provider/ADFS,arn:aws:iam::123456789012:role/Admin'',
            ''arn:aws:iam::123456789012:saml-provider/ADFS,arn:aws:iam::123456789012:role/ReadOnly'']))
     ''assertion''
   = Inr [(''arn:aws:iam::123456789012:saml-provider/ADFS'', ''arn:aws:iam::123456789012:role/Admin''),
          (''arn:aws:iam::123456789012:saml-provider/ADFS'', ''arn:aws:iam::123456789012:role/ReadOnly'')]"
proof -
  let ?vals = "[''arn:aws:iam::123456789012:saml-provider/ADFS,arn:aws:iam::123456789012:role/Admin'',
            ''arn:aws:iam::123456789012:saml-provider/ADFS,arn:aws:iam::123456789012:role/ReadOnly'']"
  let ?sv = "example_services sts_always iam_prod (example_assertion ?vals)"
  have d: "decode_assertion ?sv ''assertion'' = Inr (example_assertion ?vals)"
    by (simp add: example_services_def)
  have v: "role_values (example_assertion ?vals)
             = map (\<lambda>t. Element ATTRIBUTE_VALUE_URN [] (Some t) []) ?vals"
    by (simp add: role_values_def iter_def example_assertion_def role_attribute_def
          ATTRIBUTE_URN_def ATTRIBUTE_VALUE_URN_def AWS_ATTRIBUTE_ROLE_def)
  show ?thesis
    unfolding extract_roles_one_comma [OF d] v
    by (simp add: split_first_comma_def)
qed

subsection \<open>Account and role resolver\<close>

lemma str_nat_digits: "set (str_nat n) \<subseteq> set ''0123456789''"
proof (induction n rule: str_nat.induct)
  case (1 n)
  have d: "k < 10 \<Longrightarrow> ''0123456789'' ! k \<in> set ''0123456789''" for k :: nat
    by (rule nth_mem) simp
  show ?case
  proof (cases "n < 10")
    case True
    then show ?thesis
      using d [of n] by (subst str_nat.simps) simp
  next
    case False
    have "n mod 10 < 10" by simp
    then have "''0123456789'' ! (n mod 10) \<in> set ''0123456789''" by (rule d)
    with False 1 show ?thesis
      by (subst str_nat.simps) simp
  qed
qed

lemma literal_pattern_append:
  "literal_pattern (a @ b) \<longleftrightarrow> literal_pattern a \<and> literal_pattern b"
  by (simp add: literal_pattern_def)

lemma literal_pattern_str_int: "literal_pattern (str_int n)"
proof -
  have "\<forall>c \<in> set (str_nat k). c \<notin> set metachars" for k
    using str_nat_digits [of k] by (auto simp: metachars_def)
  then show ?thesis
    by (simp add: literal_pattern_def str_int_def list_all_iff metachars_def)
qed

lemma re_compile_account_id:
  "re_compile sv (''arn:aws:iam::'' @ str_int n) = Some (contains (''arn:aws:iam::'' @ str_int n))"
proof -
  have "literal_pattern ''arn:aws:iam::''"
    by (simp add: literal_pattern_def metachars_def)
  then have "literal_pattern (''arn:aws:iam::'' @ str_int n)"
    by (simp only: literal_pattern_append literal_pattern_str_int simp_thms)
  then show ?thesis
    by (simp only: re_compile_def if_True)
qed

lemma parse_int_nonempty: "parse_int a = Some n \<Longrightarrow> a \<noteq> []"
  by (auto simp: parse_int_def strip_def)

lemma find_principal_Some:
  "find_principal search roles = Some p \<longleftrightarrow>
     (\<exists>pre r post. roles = pre @ (p, r) # post \<and> search p \<and> (\<forall>b \<in> set pre. \<not> search (fst b)))"
proof (induction roles)
  case Nil
  then show ?case by simp
next
  case (Cons b roles)
  obtain q r where b: "b = (q, r)" by (cases b)
  show ?case
  proof (cases "search q")
    case True
    have "(\<exists>pre r' post. (q, r) # roles = pre @ (p, r') # post \<and> search p
             \<and> (\<forall>b \<in> set pre. \<not> search (fst b))) \<longleftrightarrow> q = p"
    proof
      assume "\<exists>pre r' post. (q, r) # roles = pre @ (p, r') # post \<and> search p
             \<and> (\<forall>b \<in> set pre. \<not> search (fst b))"
      then obtain pre r' post where e: "(q, r) # roles = pre @ (p, r') # post"
        and n: "\<forall>b \<in> set pre. \<not> search (fst b)" by blast
      show "q = p"
      proof (cases pre)
        case Nil
        with e show ?thesis by simp
      next
        case (Cons x xs)
        with e have "x = (q, r)" by simp
        with Cons n True show ?thesis by simp
      qed
    next
      assume "q = p"
      with True have "(q, r) # roles = [] @ (p, r) # roles \<and> search p
             \<and> (\<forall>b \<in> set []. \<not> search (fst b))" by simp
      then show "\<exists>pre r' post. (q, r) # roles = pre @ (p, r') # post \<and> search p
             \<and> (\<forall>b \<in> set pre. \<not> search (fst b))" by blast
    qed
    with True b show ?thesis by auto
  next
    case False
    have "(\<exists>pre r' post. (q, r) # roles = pre @ (p, r') # post \<and> search p
             \<and> (\<forall>b \<in> set pre. \<not> search (fst b)))
          \<longleftrightarrow> (\<exists>pre r' post. roles = pre @ (p, r') # post \<and> search p
             \<and> (\<forall>b \<in> set pre. \<not> search (fst b)))"
    proof
      assume "\<exists>pre r' post. (q, r) # roles = pre @ (p, r') # post \<and> search p
             \<and> (\<forall>b \<in> set pre. \<not> search (fst b))"
      then obtain pre r' post where e: "(q, r) # roles = pre @ (p, r') # post"
        and s: "search p" and n: "\<forall>b \<in> set pre. \<not> search (fst b)" by blast
      show "\<exists>pre r' post. roles = pre @ (p, r') # post \<and> search p
             \<and> (\<forall>b \<in> set pre. \<not> search (fst b))"
      proof (cases pre)
        case Nil
        with e s False show ?thesis by simp
      next
        case (Cons x xs)
        with e have "roles = xs @ (p, r') # post" by simp
        moreover from Cons n have "\<forall>b \<in> set xs. \<not> search (fst b)" by simp
        ultimately show ?thesis using s by blast
      qed
    next
      assume "\<exists>pre r' post. roles = pre @ (p, r') # post \<and> search p
             \<and> (\<forall>b \<in> set pre. \<not> search (fst b))"
      then obtain pre r' post where e: "roles = pre @ (p, r') # post"
        and s: "search p" and n: "\<forall>b \<in> set pre. \<not> search (fst b)" by blast
      from e have "(q, r) # roles = ((q, r) # pre) @ (p, r') # post" by simp
      moreover from n False have "\<forall>b \<in> set ((q, r) # pre). \<not> search (fst b)" by simp
      ultimately show "\<exists>pre r' post. (q, r) # roles = pre @ (p, r') # post \<and> search p
             \<and> (\<forall>b \<in> set pre. \<not> search (fst b))" using s by blast
    qed
    with False b Cons.IH show ?thesis by simp
  qed
qed

lemma account_pattern_id:
  "parse_int a = Some n \<Longrightarrow> n \<noteq> 0 \<Longrightarrow> account_pattern a = ''arn:aws:iam::'' @ str_int n"
  by (simp add: account_pattern_def)

lemma select_account_by_id:
  assumes "parse_int a = Some n" and "n \<noteq> 0"
      and "find_principal (contains (''arn:aws:iam::'' @ str_int n)) roles = Some p" and "p \<noteq> []"
  shows "select_account sv (Some a) saml region roles w
           = (Inr (Some (''arn:aws:iam::'' @ str_int n), Some p), w)"
proof -
  have t: "truthy (Some a)"
    using parse_int_nonempty [OF assms(1)] by (simp add: truthy_def)
  have tp: "truthy (Some p)"
    using assms(4) by (simp add: truthy_def)
  have pat: "account_pattern a = ''arn:aws:iam::'' @ str_int n"
    using assms(1,2) by (rule account_pattern_id)
  have c: "re_compile sv (account_pattern a) = Some (contains (account_pattern a))"
    unfolding pat by (rule re_compile_account_id)
  have f: "find_principal (contains (account_pattern a)) roles = Some p"
    unfolding pat by (rule assms(3))
  have "select_account sv (Some a) saml region roles w
           = (Inr (Some (account_pattern a), Some p), w)"
    using t tp by (simp add: select_account_def c f Let_def)
  then show ?thesis
    unfolding pat .
qed

lemma select_role_none: "\<not> truthy role \<Longrightarrow> select_role sv role account_arn roles w = (Inr roles, w)"
  by (simp add: select_role_def)

lemmas resolve_defs =
  authenticate_def resolve_def select_account_def select_role_def account_pattern_def
  parse_int_def strip_def is_space_def digit_value_def str_int_def str_nat.simps
  re_compile_def literal_pattern_def metachars_def
  extract_roles_def extract_roles_xml_def role_values_def iter_def example_assertion_def
  role_attribute_def ATTRIBUTE_URN_def ATTRIBUTE_VALUE_URN_def AWS_ATTRIBUTE_ROLE_def
  value_binding_def role_tuple_def example_arguments_def
  run_worker_def fan_out_def one_pass_def time_time_def

text \<open>
  C7, as stated: with neither selector the run takes every role of every account and
  needs no further flag. Without the flag \<open>--all-accounts\<close> and without an account
  selector the run ends at the first check, before any request.
\<close>

theorem authenticate_neither_selector:
  "authenticate 1
     (example_services sts_always iam_prod
        (example_assertion
           [''arn:aws:iam::123456789012:saml-provider/ADFS,arn:aws:iam::123456789012:role/Admin'']))
     example_arguments empty_world
   = (Some (Inl (SystemExit ''Need --account or --all-accounts'')),
      empty_world\<lparr>events := [Stderr (''samlkeygen: Need --account or --all-accounts'' @ [CHR 0x0A])]\<rparr>)
   \<and> \<not> arg_all_accounts example_arguments \<and> arg_account example_arguments = None
   \<and> arg_role example_arguments = None"
  by (simp add: authenticate_def resolve_def example_arguments_def truthy_def die_def warn_def
        warn_text_def emit_def empty_world_def)

text \<open>
  C7, amended: without an account selector the run needs the flag \<open>--all-accounts\<close>,
  and fails before any request when the flag is missing (a role selector alone does
  not help); with the flag and with an account selector or a role selector it fails
  before any request as well; with the flag and no selector it takes every binding
  that the assertion grants.
\<close>

theorem authenticate_flags:
  "(\<not> arg_all_accounts args \<and> \<not> truthy (arg_account args)
      \<longrightarrow> authenticate n sv args w
          = (Some (Inl (SystemExit ''Need --account or --all-accounts'')),
             warn ''Need --account or --all-accounts'' w))
   \<and> (arg_all_accounts args \<and> (truthy (arg_account args) \<or> truthy (arg_role args))
      \<longrightarrow> authenticate n sv args w
          = (Some (Inl (SystemExit ''Specify --account/--role or --all-accounts, not both.'')),
             warn ''Specify --account/--role or --all-accounts, not both.'' w))
   \<and> (arg_all_accounts args \<and> \<not> truthy (arg_account args) \<and> \<not> truthy (arg_role args)
       \<and> ntlm_authenticate sv (arg_url args) (arg_domain args) (arg_username args)
            (arg_password args) (arg_batch args) w = (Inr (saml_creds, saml_response), w1)
       \<and> extract_roles sv saml_response = Inr roles
      \<longrightarrow> resolve sv args w = (Inr (saml_creds, remdups roles), w1))"
  by (simp add: authenticate_def resolve_def die_def select_account_def select_role_def truthy_def)

theorem authenticate_flags_witness:
  "authenticate 1
     (example_services sts_always iam_prod
        (example_assertion
           [''arn:aws:iam::123456789012:saml-provider/ADFS,arn:aws:iam::123456789012:role/Admin'',
            ''arn:aws:iam::210987654321:saml-provider/ADFS,arn:aws:iam::210987654321:role/Admin'']))
     example_arguments empty_world
   = (Some (Inl (SystemExit ''Need --account or --all-accounts'')),
      warn ''Need --account or --all-accounts'' empty_world)
   \<and> authenticate 1
     (example_services sts_always iam_prod
        (example_assertion
           [''arn:aws:iam::123456789012:saml-provider/ADFS,arn:aws:iam::123456789012:role/Admin'',
            ''arn:aws:iam::210987654321:saml-provider/ADFS,arn:aws:iam::210987654321:role/Admin'']))
     (example_arguments\<lparr>arg_all_accounts := True, arg_account := Some ''prod''\<rparr>) empty_world
   = (Some (Inl (SystemExit ''Specify --account/--role or --all-accounts, not both.'')),
      warn ''Specify --account/--role or --all-accounts, not both.'' empty_world)
   \<and> resolve
     (example_services sts_always iam_prod
        (example_assertion
           [''arn:aws:iam::123456789012:saml-provider/ADFS,arn:aws:iam::123456789012:role/Admin'',
            ''arn:aws:iam::210987654321:saml-provider/ADFS,arn:aws:iam::210987654321:role/Admin'']))
     (example_arguments\<lparr>arg_all_accounts := True\<rparr>) empty_world
   = (Inr ((''https://adfs.example.com/'', ''CORP'', ''alice'', Some ''secret''),
           [(''arn:aws:iam::123456789012:saml-provider/ADFS'', ''arn:aws:iam::123456789012:role/Admin''),
            (''arn:aws:iam::210987654321:saml-provider/ADFS'', ''arn:aws:iam::210987654321:role/Admin'')]),
      empty_world\<lparr>events :=
        [HttpGet ''https://adfs.example.com/'' (''CORP'' @ [CHR 0x5C] @ ''alice'') ''secret'']\<rparr>)"
  (is "?A \<and> ?B \<and> ?C")
proof -
  let ?sv = "example_services sts_always iam_prod
        (example_assertion
           [''arn:aws:iam::123456789012:saml-provider/ADFS,arn:aws:iam::123456789012:role/Admin'',
            ''arn:aws:iam::210987654321:saml-provider/ADFS,arn:aws:iam::210987654321:role/Admin''])"
  let ?roles = "[(''arn:aws:iam::123456789012:saml-provider/ADFS'', ''arn:aws:iam::123456789012:role/Admin''),
            (''arn:aws:iam::210987654321:saml-provider/ADFS'', ''arn:aws:iam::210987654321:role/Admin'')]"
  let ?w1 = "empty_world\<lparr>events :=
        [HttpGet ''https://adfs.example.com/'' (''CORP'' @ [CHR 0x5C] @ ''alice'') ''secret'']\<rparr>"
  let ?sc = "(''https://adfs.example.com/'', ''CORP'', ''alice'', Some ''secret'')"
  have a: ?A
    using authenticate_flags [of example_arguments 1 ?sv empty_world]
    by (simp add: example_arguments_def truthy_def)
  have b: ?B
    using authenticate_flags [of "example_arguments\<lparr>arg_all_accounts := True, arg_account := Some ''prod''\<rparr>"
            1 ?sv empty_world]
    by (simp add: example_arguments_def truthy_def)
  have i: "ntlm_authenticate ?sv ''https://adfs.example.com/'' ''CORP'' ''alice'' (Some ''secret'') True
             empty_world = (Inr (?sc, ''assertion''), ?w1)"
    by (simp add: ntlm_authenticate_def example_services_def truthy_def Let_def empty_world_def
          emit_def)
  have x: "extract_roles ?sv ''assertion'' = Inr ?roles"
    by (simp add: extract_roles_def example_services_def extract_roles_xml_def role_values_def
          iter_def example_assertion_def role_attribute_def ATTRIBUTE_URN_def
          ATTRIBUTE_VALUE_URN_def AWS_ATTRIBUTE_ROLE_def value_binding_def role_tuple_def)
  have c: ?C
    using authenticate_flags [of "example_arguments\<lparr>arg_all_accounts := True\<rparr>" 1 ?sv empty_world
            ?sc "''assertion''" ?w1 ?roles] i x
    by (simp add: example_arguments_def truthy_def)
  from a b c show ?thesis by blast
qed

text \<open>
  C9, as stated: a selector that parses as an integer selects a binding exactly when the
  account number of its principal equals that integer. The selector \<open>123\<close> selects
  the binding of account \<open>123456789012\<close>: the pattern built from the integer is
  searched for in the principal identifier, and the account number need only begin
  with it.
\<close>

theorem resolve_account_number_prefix:
  "resolve
     (example_services sts_always iam_prod
        (example_assertion
           [''arn:aws:iam::123456789012:saml-provider/ADFS,arn:aws:iam::123456789012:role/Admin'']))
     (example_arguments\<lparr>arg_account := Some ''123''\<rparr>) empty_world
   = (Inr ((''https://adfs.example.com/'', ''CORP'', ''alice'', Some ''secret''),
           [(''arn:aws:iam::123456789012:saml-provider/ADFS'', ''arn:aws:iam::123456789012:role/Admin'')]),
      empty_world\<lparr>events :=
        [HttpGet ''https://adfs.example.com/'' (''CORP'' @ [CHR 0x5C] @ ''alice'') ''secret'']\<rparr>)
   \<and> parse_int ''123'' = Some 123
   \<and> account_number_segment ''arn:aws:iam::123456789012:saml-provider/ADFS'' = Inr ''123456789012''"
  by (simp add: resolve_defs run_defs account_number_segment_def)

lemma digit_value_nth: "k < 10 \<Longrightarrow> digit_value (''0123456789'' ! k) = Some k"
proof -
  assume "k < 10"
  then have "k \<in> {0, 1, 2, 3, 4, 5, 6, 7, 8, 9}"
    by auto
  then show ?thesis
    by (auto simp: digit_value_def)
qed

lemma digit_value_digits: "c \<in> set ''0123456789'' \<Longrightarrow> digit_value c \<noteq> None"
  by (auto simp: digit_value_def)

lemma parse_digits_all_digits:
  "xs \<noteq> [] \<Longrightarrow> \<forall>c \<in> set xs. digit_value c \<noteq> None \<Longrightarrow>
     parse_digits b acc xs = Some (foldl (\<lambda>a c. 10 * a + the (digit_value c)) acc xs)"
proof (induction xs arbitrary: b acc)
  case Nil
  then show ?case by simp
next
  case (Cons c cs)
  then obtain d where d: "digit_value c = Some d" by auto
  show ?case
  proof (cases "cs = []")
    case True
    with d show ?thesis by simp
  next
    case False
    with Cons d show ?thesis by simp
  qed
qed

lemma str_nat_not_Nil: "str_nat n \<noteq> []"
  by (subst str_nat.simps) simp

lemma foldl_str_nat: "foldl (\<lambda>a c. 10 * a + the (digit_value c)) 0 (str_nat n) = n"
proof (induction n rule: str_nat.induct)
  case (1 n)
  show ?case
  proof (cases "n < 10")
    case True
    then show ?thesis
      by (subst str_nat.simps) (simp add: digit_value_nth)
  next
    case False
    have "n mod 10 < 10" by simp
    then have "digit_value (''0123456789'' ! (n mod 10)) = Some (n mod 10)"
      by (rule digit_value_nth)
    with False 1 show ?thesis
      by (subst str_nat.simps) simp
  qed
qed

lemma dropWhile_none: "\<forall>x \<in> set xs. \<not> P x \<Longrightarrow> dropWhile P xs = xs"
  by (cases xs) simp_all

lemma strip_no_space: "\<forall>c \<in> set s. \<not> is_space c \<Longrightarrow> strip s = s"
  by (simp add: strip_def dropWhile_none)

lemma digit_not_space: "c \<in> set ''0123456789'' \<Longrightarrow> \<not> is_space c"
  by (auto simp: is_space_def)

lemma digit_not_sign: "c \<in> set ''0123456789'' \<Longrightarrow> c \<noteq> CHR ''-'' \<and> c \<noteq> CHR ''+''"
  by auto

lemma parse_int_digits:
  assumes "s = c # cs" and "\<forall>x \<in> set s. x \<in> set ''0123456789''"
  shows "parse_int s = map_option int (parse_digits False 0 s)"
proof -
  have sp: "\<forall>x \<in> set s. \<not> is_space x"
    using assms(2) digit_not_space by blast
  have "c \<in> set ''0123456789''"
    using assms by simp
  then have sg: "c \<noteq> CHR ''-'' \<and> c \<noteq> CHR ''+''"
    by (rule digit_not_sign)
  have "parse_int s = (case s of [] \<Rightarrow> None
      | c # cs \<Rightarrow>
          if c = CHR ''-'' then map_option (\<lambda>n. - int n) (parse_digits False 0 cs)
          else if c = CHR ''+'' then map_option int (parse_digits False 0 cs)
          else map_option int (parse_digits False 0 (c # cs)))"
    by (simp only: parse_int_def strip_no_space [OF sp])
  also have "\<dots> = map_option int (parse_digits False 0 s)"
    using sg by (simp only: assms(1) list.case if_False)
  finally show ?thesis .
qed

lemma parse_int_str_nat: "parse_int (str_nat n) = Some (int n)"
proof -
  have dg: "\<forall>c \<in> set (str_nat n). c \<in> set ''0123456789''"
    using str_nat_digits [of n] by blast
  have dv: "\<forall>c \<in> set (str_nat n). digit_value c \<noteq> None"
    using dg digit_value_digits by blast
  obtain c cs where cs: "str_nat n = c # cs"
    using str_nat_not_Nil [of n] by (cases "str_nat n") auto
  have "parse_digits False 0 (str_nat n)
          = Some (foldl (\<lambda>a c. 10 * a + the (digit_value c)) 0 (str_nat n))"
    using str_nat_not_Nil dv by (rule parse_digits_all_digits)
  then have p: "parse_digits False 0 (str_nat n) = Some n"
    by (simp only: foldl_str_nat)
  have "parse_int (str_nat n) = map_option int (parse_digits False 0 (str_nat n))"
    using cs dg by (rule parse_int_digits)
  then show ?thesis
    by (simp only: p option.map)
qed

lemma parse_int_str_int: "0 < n \<Longrightarrow> parse_int (str_int n) = Some n"
  using parse_int_str_nat [of "nat n"] by (simp add: str_int_def)

lemma contains_nonempty: "contains pat p \<Longrightarrow> pat \<noteq> [] \<Longrightarrow> p \<noteq> []"
  by (cases p) auto

text \<open>
  C9, amended: for a selector that is the decimal numeral of a positive integer (digits
  only, no leading zero), the resolver searches the principal identifiers for the
  text \<open>arn:aws:iam::\<close> followed by that numeral; when a principal identifier
  contains it, the first such principal (in the order of the assertion) is the
  account, found without any request, and a binding is selected exactly when its
  principal identifier is that one.
\<close>

theorem resolve_by_account_id:
  assumes "0 < n" and "arg_account args = Some (str_int n)"
      and "\<not> arg_all_accounts args" and "\<not> truthy (arg_role args)"
      and "ntlm_authenticate sv (arg_url args) (arg_domain args) (arg_username args)
             (arg_password args) (arg_batch args) w = (Inr (saml_creds, saml_response), w1)"
      and "extract_roles sv saml_response = Inr roles"
      and "find_principal (contains (''arn:aws:iam::'' @ str_int n)) roles = Some p"
  shows "resolve sv args w = (Inr (saml_creds, remdups (filter (\<lambda>r. fst r = p) roles)), w1)
         \<and> contains (''arn:aws:iam::'' @ str_int n) p
         \<and> (\<exists>pre r post. roles = pre @ (p, r) # post
               \<and> (\<forall>b \<in> set pre. \<not> contains (''arn:aws:iam::'' @ str_int n) (fst b)))"
proof -
  let ?pat = "''arn:aws:iam::'' @ str_int n"
  from assms(7) obtain pre r post where f: "roles = pre @ (p, r) # post" "contains ?pat p"
    "\<forall>b \<in> set pre. \<not> contains ?pat (fst b)"
    unfolding find_principal_Some by blast
  have pn: "p \<noteq> []"
    using f(2) by (rule contains_nonempty) simp
  have ne: "filter (\<lambda>r. fst r = p) roles \<noteq> []"
    using f(1) by (simp add: filter_empty_conv)
  have pi: "parse_int (str_int n) = Some n"
    using assms(1) by (rule parse_int_str_int)
  have n0: "n \<noteq> 0"
    using assms(1) by simp
  have t: "truthy (Some (str_int n))"
    using parse_int_nonempty [OF pi] by (simp add: truthy_def)
  have tp: "truthy (Some p)"
    using pn by (simp add: truthy_def)
  have s: "select_account sv (Some (str_int n)) saml_response (arg_region args) roles w1
             = (Inr (Some ?pat, Some p), w1)"
    using pi n0 assms(7) pn by (rule select_account_by_id)
  have r: "resolve sv args w = (Inr (saml_creds, remdups (filter (\<lambda>r. fst r = p) roles)), w1)"
    using assms(2,3,4,5,6) t tp ne
    by (simp add: resolve_def s select_role_none Let_def)
  from r f show ?thesis by blast
qed

theorem resolve_by_account_id_witness:
  "resolve
     (example_services sts_always iam_prod
        (example_assertion
           [''arn:aws:iam::210987654321:saml-provider/ADFS,arn:aws:iam::210987654321:role/Admin'',
            ''arn:aws:iam::123456789012:saml-provider/ADFS,arn:aws:iam::123456789012:role/Admin'',
            ''arn:aws:iam::123456789012:saml-provider/ADFS,arn:aws:iam::123456789012:role/ReadOnly'']))
     (example_arguments\<lparr>arg_account := Some ''123456789012''\<rparr>) empty_world
   = (Inr ((''https://adfs.example.com/'', ''CORP'', ''alice'', Some ''secret''),
           [(''arn:aws:iam::123456789012:saml-provider/ADFS'', ''arn:aws:iam::123456789012:role/Admin''),
            (''arn:aws:iam::123456789012:saml-provider/ADFS'', ''arn:aws:iam::123456789012:role/ReadOnly'')]),
      empty_world\<lparr>events :=
        [HttpGet ''https://adfs.example.com/'' (''CORP'' @ [CHR 0x5C] @ ''alice'') ''secret'']\<rparr>)"
proof -
  let ?sv = "example_services sts_always iam_prod
        (example_assertion
           [''arn:aws:iam::210987654321:saml-provider/ADFS,arn:aws:iam::210987654321:role/Admin'',
            ''arn:aws:iam::123456789012:saml-provider/ADFS,arn:aws:iam::123456789012:role/Admin'',
            ''arn:aws:iam::123456789012:saml-provider/ADFS,arn:aws:iam::123456789012:role/ReadOnly''])"
  let ?roles = "[(''arn:aws:iam::210987654321:saml-provider/ADFS'', ''arn:aws:iam::210987654321:role/Admin''),
            (''arn:aws:iam::123456789012:saml-provider/ADFS'', ''arn:aws:iam::123456789012:role/Admin''),
            (''arn:aws:iam::123456789012:saml-provider/ADFS'', ''arn:aws:iam::123456789012:role/ReadOnly'')]"
  let ?args = "example_arguments\<lparr>arg_account := Some ''123456789012''\<rparr>"
  let ?w1 = "empty_world\<lparr>events :=
        [HttpGet ''https://adfs.example.com/'' (''CORP'' @ [CHR 0x5C] @ ''alice'') ''secret'']\<rparr>"
  let ?sc = "(''https://adfs.example.com/'', ''CORP'', ''alice'', Some ''secret'')"
  have n: "str_int 123456789012 = ''123456789012''"
    by (simp add: str_int_def str_nat.simps)
  have h1: "(0::int) < 123456789012"
    by simp
  have h2: "arg_account ?args = Some (str_int 123456789012)"
    unfolding n by simp
  have h3: "\<not> arg_all_accounts ?args" and h4: "\<not> truthy (arg_role ?args)"
    by (simp_all add: example_arguments_def truthy_def)
  have h5: "ntlm_authenticate ?sv (arg_url ?args) (arg_domain ?args) (arg_username ?args)
             (arg_password ?args) (arg_batch ?args) empty_world = (Inr (?sc, ''assertion''), ?w1)"
    by (simp add: ntlm_authenticate_def example_services_def truthy_def Let_def empty_world_def
          emit_def example_arguments_def)
  have h6: "extract_roles ?sv ''assertion'' = Inr ?roles"
    by (simp add: extract_roles_def example_services_def extract_roles_xml_def role_values_def
          iter_def example_assertion_def role_attribute_def ATTRIBUTE_URN_def
          ATTRIBUTE_VALUE_URN_def AWS_ATTRIBUTE_ROLE_def value_binding_def role_tuple_def)
  have h7: "find_principal (contains (''arn:aws:iam::'' @ str_int 123456789012)) ?roles
              = Some ''arn:aws:iam::123456789012:saml-provider/ADFS''"
    unfolding n by simp
  show ?thesis
    using resolve_by_account_id [OF h1 h2 h3 h4 h5 h6 h7]
    by simp
qed

text \<open>
  C1: when the account selector matches no principal identifier and no resolved alias,
  the run fails naming the account, and neither exchanges tokens for the workers nor
  writes the store. The code, run with the selector \<open>staging\<close> on an assertion
  whose only account has the alias \<open>prod\<close>: the test before
  \<open>die('Account ... not found.')\<close> asks for \<open>account_arn\<close> to be set, which it is
  not, so the run goes on with every binding, exchanges a token in a worker and
  writes the profile \<open>prod:Admin\<close>.
\<close>

theorem authenticate_unmatched_account:
  "fst (authenticate 1
     (example_services sts_always iam_prod
        (example_assertion
           [''arn:aws:iam::123456789012:saml-provider/ADFS,arn:aws:iam::123456789012:role/Admin'']))
     (example_arguments\<lparr>arg_account := Some ''staging''\<rparr>) empty_world) = Some (Inr ())
   \<and> events (snd (authenticate 1
     (example_services sts_always iam_prod
        (example_assertion
           [''arn:aws:iam::123456789012:saml-provider/ADFS,arn:aws:iam::123456789012:role/Admin'']))
     (example_arguments\<lparr>arg_account := Some ''staging''\<rparr>) empty_world))
   = [HttpGet ''https://adfs.example.com/'' (''CORP'' @ [CHR 0x5C] @ ''alice'') ''secret'',
      AssumeRoleWithSaml ''arn:aws:iam::123456789012:role/Admin''
        ''arn:aws:iam::123456789012:saml-provider/ADFS'' ''assertion'' ''us-east-1'',
      ListAccountAliases \<lparr>AccessKeyId = ''AK'', SecretAccessKey = ''SK'', SessionToken = ''ST''\<rparr>,
      HttpGet ''https://adfs.example.com/'' (''CORP'' @ [CHR 0x5C] @ ''alice'') ''secret'',
      AssumeRoleWithSaml ''arn:aws:iam::123456789012:role/Admin''
        ''arn:aws:iam::123456789012:saml-provider/ADFS'' ''assertion'' ''us-east-1'',
      Stdout (''Writing credentials for profile prod:Admin'' @ [CHR 0x0A]),
      LockAcquire ''/home/user/.aws/credentials.lck'',
      ReadFile ''/home/user/.aws/credentials'',
      WriteFile ''/home/user/.aws/credentials'',
      LockRelease ''/home/user/.aws/credentials.lck'']"
  by (simp add: resolve_defs run_defs)

subsection \<open>Refresh scheduler\<close>

lemma now_die [simp]: "now (snd (die m w)) = now w"
  by (simp add: die_def)

lemma now_ntlm_authenticate [simp]:
  "now (snd (ntlm_authenticate sv url domain username password batch w)) = now w"
  by (simp add: ntlm_authenticate_def Let_def)

lemma now_get_sts_token [simp]:
  "now (snd (get_sts_token sv role_arn principal_arn saml region w)) = now w"
  by (simp add: get_sts_token_def Let_def split: remote.splits)

lemma now_lookup_account_alias [simp]:
  "now (snd (lookup_account_alias sv tok w)) = now w"
  by (simp add: lookup_account_alias_def split: prod.splits)

lemma now_get_account_name [simp]:
  "now (snd (get_account_name sv account_arn saml role_arn region w)) = now w"
proof -
  obtain t w1 where g: "get_sts_token sv role_arn account_arn saml region w = (t, w1)"
    by (cases "get_sts_token sv role_arn account_arn saml region w")
  have n1: "now w1 = now w"
    using now_get_sts_token [of sv role_arn account_arn saml region w] g by simp
  show ?thesis
  proof (cases t)
    case None
    with g n1 show ?thesis
      by (simp add: get_account_name_def split: option.splits)
  next
    case (Some tok)
    obtain r w2 where l: "lookup_account_alias sv tok w1 = (r, w2)"
      by (cases "lookup_account_alias sv tok w1")
    have n2: "now w2 = now w1"
      using now_lookup_account_alias [of sv tok w1] l by simp
    from g Some l n1 n2 show ?thesis
      by (cases r) (simp_all add: get_account_name_def split: option.splits)
  qed
qed

lemma now_update_creds_file [simp]:
  "now (snd (update_creds_file sv filename profile tok w)) = now w"
  by (simp add: update_creds_file_def update_creds_body_def load_credentials_True
        split: sum.splits prod.splits)

lemma now_authenticate_account_role [simp]:
  "now (snd (authenticate_account_role sv filename fmt principal_arn role_arn saml_creds region w))
     = now w"
proof -
  obtain url domain username password where sc: "saml_creds = (url, domain, username, password)"
    by (cases saml_creds) auto
  obtain r1 w1 where a: "ntlm_authenticate sv url domain username password True w = (r1, w1)"
    by (cases "ntlm_authenticate sv url domain username password True w")
  have n1: "now w1 = now w"
    using now_ntlm_authenticate [of sv url domain username password True w] a by simp
  show ?thesis
  proof (cases r1)
    case (Inl e)
    with sc a n1 show ?thesis by (simp add: authenticate_account_role_def)
  next
    case (Inr x)
    obtain sc' saml where x: "x = (sc', saml)" by (cases x)
    obtain t w2 where g: "get_sts_token sv role_arn principal_arn saml region w1 = (t, w2)"
      by (cases "get_sts_token sv role_arn principal_arn saml region w1")
    have n2: "now w2 = now w1"
      using now_get_sts_token [of sv role_arn principal_arn saml region w1] g by simp
    show ?thesis
    proof (cases t)
      case None
      with sc a Inr x g n1 n2 show ?thesis by (simp add: authenticate_account_role_def)
    next
      case (Some tok)
      obtain r3 w3 where h: "get_account_name sv principal_arn saml role_arn region w2 = (r3, w3)"
        by (cases "get_account_name sv principal_arn saml role_arn region w2")
      have n3: "now w3 = now w2"
        using now_get_account_name [of sv principal_arn saml role_arn region w2] h by simp
      from sc a Inr x g Some h n1 n2 n3 show ?thesis
        by (cases r3; cases "get_role_name role_arn")
           (simp_all add: authenticate_account_role_def Let_def)
    qed
  qed
qed

lemma now_run_worker [simp]: "now (run_worker sv args saml_creds b w) = now w"
proof -
  obtain r w' where a: "authenticate_account_role sv (arg_filename args) (arg_profile args) (fst b)
      (snd b) saml_creds (arg_region args) w = (r, w')"
    by (cases "authenticate_account_role sv (arg_filename args) (arg_profile args) (fst b)
      (snd b) saml_creds (arg_region args) w")
  have "now w' = now w"
    using now_authenticate_account_role [of sv "arg_filename args" "arg_profile args" "fst b"
        "snd b" saml_creds "arg_region args" w] a by simp
  with a show ?thesis by (simp add: run_worker_def)
qed

lemma now_fold_run_worker [simp]:
  "now (fold (run_worker sv args saml_creds) roles w) = now w"
  by (induction roles arbitrary: w) simp_all


lemma time_time_simps [simp]:
  "events (time_time sv w) = events w"
  "now (time_time sv w) = now w + of_nat (lag_us sv (ticks w)) / 1000000"
  "ticks (time_time sv w) = Suc (ticks w)"
  by (simp_all add: time_time_def)


lemma events_fan_out_time [simp]:
  "events (fan_out sv args saml_creds roles w)
     = events (fold (run_worker sv args saml_creds) roles w)"
  by (simp add: fan_out_def Let_def)








end
